theory Spec2Isabelle
  imports Main "HOL-Library.Word"
begin

section \<open>JavaScript strings\<close>

text \<open>
  A JavaScript string is a sequence of UTF-16 code units: \<open>length\<close> counts code units,
  \<open>slice\<close> cuts between them and the relational operators compare them code unit by
  code unit. A code unit is a 16-bit word.
\<close>

type_synonym jschar = "16 word"
type_synonym jsstring = "jschar list"

text \<open>The string literal of the source with the given ASCII text.\<close>

definition js :: "string \<Rightarrow> jsstring" where
  "js s = map (\<lambda>c. word_of_nat (of_char c)) s"

text \<open>\<open>a <= b\<close> on strings: lexicographic on the code units, a proper prefix is smaller.\<close>

fun js_le :: "jsstring \<Rightarrow> jsstring \<Rightarrow> bool" where
  "js_le [] ys = True"
| "js_le (x # xs) [] = False"
| "js_le (x # xs) (y # ys) = (x < y \<or> (x = y \<and> js_le xs ys))"

text \<open>
  \<open>String.prototype.toLowerCase\<close>. On a string of ASCII code units it maps \<open>A\<close>..\<open>Z\<close> to
  \<open>a\<close>..\<open>z\<close> and keeps everything else; on any other string it is the Unicode default
  case conversion of the runtime, which is taken as the parameter \<open>U\<close>.
\<close>

definition ascii_lower :: "jschar \<Rightarrow> jschar" where
  "ascii_lower c = (if 0x41 \<le> c \<and> c \<le> 0x5A then c + 0x20 else c)"

definition toLowerCase :: "(jsstring \<Rightarrow> jsstring) \<Rightarrow> jsstring \<Rightarrow> jsstring" where
  "toLowerCase U s = (if list_all (\<lambda>c. c < 0x80) s then map ascii_lower s else U s)"

text \<open>\<open>String(n)\<close> for a non-negative integer, as the template literals print a count.\<close>

fun digits :: "nat \<Rightarrow> jsstring" where
  "digits n = (if n < 10 then [0x30 + word_of_nat n]
               else digits (n div 10) @ [0x30 + word_of_nat (n mod 10)])"

declare digits.simps [simp del]

section \<open>Key classification of the terminal library\<close>

text \<open>
  \<open>matchesKey(data, key)\<close> and \<open>parseKey(data)\<close> belong to the terminal library, not to
  this repository. The handlers below take them as the parameters \<open>mk\<close> and \<open>pk\<close>;
  \<open>keyid\<close> lists the key names the handlers ask for.
\<close>

datatype keyid = Escape | CtrlC | Backspace | Up | Down | CtrlP | CtrlN | Enter | Return

type_synonym matcher = "jsstring \<Rightarrow> keyid \<Rightarrow> bool"
type_synonym keyparser = "jsstring \<Rightarrow> jsstring option"

text \<open>
  One possible \<open>matchesKey\<close>, used to run the handlers on concrete input: the byte
  sequences a terminal without keyboard protocol extensions sends.
\<close>

fun legacyKey :: "keyid \<Rightarrow> jsstring" where
  "legacyKey Escape = [0x1B]"
| "legacyKey CtrlC = [0x03]"
| "legacyKey Backspace = [0x7F]"
| "legacyKey Up = [0x1B, 0x5B, 0x41]"
| "legacyKey Down = [0x1B, 0x5B, 0x42]"
| "legacyKey CtrlP = [0x10]"
| "legacyKey CtrlN = [0x0E]"
| "legacyKey Enter = [0x0D]"
| "legacyKey Return = [0x0D]"

definition legacyMatches :: matcher where
  "legacyMatches data k = (data = legacyKey k)"

text \<open>The test \<open>data.length === 1 && data >= " " && data <= "~"\<close> of all three handlers.\<close>

definition isPrintable :: "jsstring \<Rightarrow> bool" where
  "isPrintable data = (length data = 1 \<and> js_le (js '' '') data \<and> js_le data (js ''~''))"

section \<open>The searchable select list\<close>

record SearchableItem =
  item_value :: jsstring
  item_label :: jsstring
  item_description :: "jsstring option"

text \<open>
  \<open>fuzzyFilter(items, query, getText)\<close> is a function of the terminal library as well; it
  is the parameter \<open>ff\<close> of the list.
\<close>

type_synonym fuzzy =
  "SearchableItem list \<Rightarrow> jsstring \<Rightarrow> (SearchableItem \<Rightarrow> jsstring) \<Rightarrow> SearchableItem list"

definition MAX_VISIBLE :: int where
  "MAX_VISIBLE = 15"

text \<open>The four variables the closure of \<open>searchableSelect\<close> keeps.\<close>

record select_state =
  searchText :: jsstring
  filteredItems :: "SearchableItem list"
  highlightedIndex :: int
  scrollOffset :: int

definition select_init :: "SearchableItem list \<Rightarrow> select_state" where
  "select_init items =
     \<lparr>searchText = [], filteredItems = items, highlightedIndex = 0, scrollOffset = 0\<rparr>"

text \<open>The text a candidate is matched on: \<open>`${item.label} ${item.value}`\<close>.\<close>

definition itemText :: "SearchableItem \<Rightarrow> jsstring" where
  "itemText item = item_label item @ js '' '' @ item_value item"

definition applyFilter :: "fuzzy \<Rightarrow> SearchableItem list \<Rightarrow> select_state \<Rightarrow> select_state" where
  "applyFilter ff items s =
     s\<lparr>filteredItems := (if searchText s = [] then items else ff items (searchText s) itemText),
       highlightedIndex := 0,
       scrollOffset := 0\<rparr>"

definition ensureVisible :: "select_state \<Rightarrow> select_state" where
  "ensureVisible s =
     (if highlightedIndex s < scrollOffset s then s\<lparr>scrollOffset := highlightedIndex s\<rparr>
      else if highlightedIndex s \<ge> scrollOffset s + MAX_VISIBLE
        then s\<lparr>scrollOffset := highlightedIndex s - MAX_VISIBLE + 1\<rparr>
      else s)"

text \<open>
  What one call of \<open>handleInput\<close> does besides changing the variables: nothing, a call of
  \<open>done\<close> with the chosen value or with \<open>null\<close>, or a \<open>TypeError\<close> (reading \<open>.value\<close> of
  \<open>undefined\<close>, when the index is negative).
\<close>

datatype 'a outcome = NoOutcome | Done 'a | TypeError

text \<open>The two navigation branches, as the handler writes them.\<close>

definition moveUp :: "select_state \<Rightarrow> select_state" where
  "moveUp s = ensureVisible (s\<lparr>highlightedIndex := max 0 (highlightedIndex s - 1)\<rparr>)"

definition moveDown :: "select_state \<Rightarrow> select_state" where
  "moveDown s =
     ensureVisible
       (s\<lparr>highlightedIndex := min (int (length (filteredItems s)) - 1) (highlightedIndex s + 1)\<rparr>)"

text \<open>
  \<open>handleInput(data)\<close> of \<open>searchableSelect\<close>. The result is the new state, the outcome
  and whether \<open>tui.requestRender()\<close> was called.
\<close>

definition select_handleInput ::
  "matcher \<Rightarrow> fuzzy \<Rightarrow> SearchableItem list \<Rightarrow> select_state \<Rightarrow> jsstring
     \<Rightarrow> select_state \<times> jsstring option outcome \<times> bool" where
  "select_handleInput mk ff items s data =
     (if mk data Escape \<or> mk data CtrlC then (s, Done None, False)
      else if mk data Backspace then
        (if length (searchText s) > 0
         then (applyFilter ff items (s\<lparr>searchText := butlast (searchText s)\<rparr>), NoOutcome, True)
         else (s, NoOutcome, False))
      else if mk data Up \<or> mk data CtrlP then (moveUp s, NoOutcome, True)
      else if mk data Down \<or> mk data CtrlN then (moveDown s, NoOutcome, True)
      else if mk data Enter then
        (if length (filteredItems s) > 0 \<and> highlightedIndex s < int (length (filteredItems s))
         then (if highlightedIndex s < 0 then (s, TypeError, False)
               else (s, Done (Some (item_value (filteredItems s ! nat (highlightedIndex s)))), False))
         else (s, NoOutcome, False))
      else if isPrintable data
        then (applyFilter ff items (s\<lparr>searchText := searchText s @ data\<rparr>), NoOutcome, True)
      else (s, NoOutcome, False))"

text \<open>A sequence of input events, delivered while no outcome has been produced.\<close>

fun select_run ::
  "matcher \<Rightarrow> fuzzy \<Rightarrow> SearchableItem list \<Rightarrow> select_state \<Rightarrow> jsstring list
     \<Rightarrow> select_state \<times> jsstring option outcome" where
  "select_run mk ff items s [] = (s, NoOutcome)"
| "select_run mk ff items s (d # ds) =
     (case select_handleInput mk ff items s d of
        (s', NoOutcome, r) \<Rightarrow> select_run mk ff items s' ds
      | (s', out, r) \<Rightarrow> (s', out))"

text \<open>
  A matcher to run the list with: it keeps, in their order, the candidates whose text
  contains the characters of the query in order, compared without case. It is the
  exclusion rule of the library's filter, without its ranking.
\<close>

fun subseq_of :: "jsstring \<Rightarrow> jsstring \<Rightarrow> bool" where
  "subseq_of [] t = True"
| "subseq_of (q # qs) [] = False"
| "subseq_of (q # qs) (c # cs) = (if q = c then subseq_of qs cs else subseq_of (q # qs) cs)"

definition subseqFilter :: fuzzy where
  "subseqFilter items query getText =
     filter (\<lambda>i. subseq_of (map ascii_lower query) (map ascii_lower (getText i))) items"

text \<open>
  The list widget of the earlier model switcher (\<open>SelectList\<close> of the terminal
  library), reduced to the two fields that \<open>applyFuzzyFilter\<close> writes.
\<close>

record selectList =
  sl_filteredItems :: "SearchableItem list"
  sl_selectedIndex :: int

definition applyFuzzyFilter ::
  "fuzzy \<Rightarrow> SearchableItem list \<Rightarrow> jsstring \<Rightarrow> selectList \<Rightarrow> selectList" where
  "applyFuzzyFilter ff items query sl =
     sl\<lparr>sl_filteredItems := (if query = [] then items else ff items query itemText),
        sl_selectedIndex := 0\<rparr>"

text \<open>
  The invariant of the filter state, in the words of the specification: the highlighted
  index is a position of the filtered list, or 0 when that list is empty; the scroll
  offset is not negative and the highlighted row lies in the window that starts there.
\<close>

definition select_inv :: "select_state \<Rightarrow> bool" where
  "select_inv s =
     ((if filteredItems s \<noteq> []
       then 0 \<le> highlightedIndex s \<and> highlightedIndex s < int (length (filteredItems s))
       else highlightedIndex s = 0)
      \<and> 0 \<le> scrollOffset s
      \<and> scrollOffset s \<le> highlightedIndex s
      \<and> highlightedIndex s < scrollOffset s + MAX_VISIBLE)"

text \<open>None of the keys that \<open>handleInput\<close> of the list asks for matches the input.\<close>

definition noControlKey :: "matcher \<Rightarrow> jsstring \<Rightarrow> bool" where
  "noControlKey mk data =
     (\<not> mk data Escape \<and> \<not> mk data CtrlC \<and> \<not> mk data Backspace \<and> \<not> mk data Up
      \<and> \<not> mk data CtrlP \<and> \<not> mk data Down \<and> \<not> mk data CtrlN \<and> \<not> mk data Enter)"

text \<open>A candidate whose label and value are the same text.\<close>

definition plainItem :: "string \<Rightarrow> SearchableItem" where
  "plainItem t = \<lparr>item_value = js t, item_label = js t, item_description = None\<rparr>"

section \<open>The allow-list of enabled models\<close>

text \<open>
  \<open>getEnabledModelSet\<close>: the patterns of the settings (\<open>sm.getEnabledModels()\<close>, here the
  argument \<open>patterns\<close>, \<open>None\<close> when the setting is absent), in lower case, as a set;
  \<open>undefined\<close> when there is no filter.
\<close>

definition getEnabledModelSet ::
  "(jsstring \<Rightarrow> jsstring) \<Rightarrow> jsstring list option \<Rightarrow> jsstring set option" where
  "getEnabledModelSet U patterns =
     (case patterns of
        None \<Rightarrow> None
      | Some ps \<Rightarrow> if length ps = 0 then None else Some (set (map (toLowerCase U) ps)))"

text \<open>
  The three \<open>replace\<close> calls that turn a pattern into the source of a regular expression:
  a backslash before each of \<open>. + ^ $ { } ( ) | [ ]\<close> and before a backslash, then \<open>.*\<close>
  for every \<open>*\<close>, then \<open>.\<close> for every \<open>?\<close>; the result between \<open>^\<close> and \<open>$\<close>.
\<close>

definition regexSpecial :: "jschar \<Rightarrow> bool" where
  "regexSpecial c = (c \<in> set (js ''.+^${}()|[]'' @ [0x5C]))"

definition escapeRegex :: "jsstring \<Rightarrow> jsstring" where
  "escapeRegex p = concat (map (\<lambda>c. if regexSpecial c then [0x5C, c] else [c]) p)"

definition replaceStar :: "jsstring \<Rightarrow> jsstring" where
  "replaceStar p = concat (map (\<lambda>c. if c = 0x2A then js ''.*'' else [c]) p)"

definition replaceQuestion :: "jsstring \<Rightarrow> jsstring" where
  "replaceQuestion p = concat (map (\<lambda>c. if c = 0x3F then js ''.'' else [c]) p)"

definition globSource :: "jsstring \<Rightarrow> jsstring" where
  "globSource pattern = js ''^'' @ replaceQuestion (replaceStar (escapeRegex pattern)) @ js ''$''"

text \<open>
  \<open>new RegExp(source).test(key)\<close> for the sources that \<open>globSource\<close> produces: \<open>^\<close>
  first, then escaped characters, \<open>.\<close>, \<open>.*\<close> and ordinary characters, and \<open>$\<close> at the
  end. Without flags the expression works on code units, and \<open>.\<close> matches every code
  unit but the four line terminators.
\<close>

definition lineTerminator :: "jschar \<Rightarrow> bool" where
  "lineTerminator c = (c = 0x0A \<or> c = 0x0D \<or> c = 0x2028 \<or> c = 0x2029)"

fun regexMatch :: "jsstring \<Rightarrow> jsstring \<Rightarrow> bool" where
  "regexMatch [] s = True"
| "regexMatch (c # r) s =
     (if c = 0x24 then s = [] \<and> regexMatch r s
      else if c = 0x5C then
        (case r of
           [] \<Rightarrow> False
         | e # r' \<Rightarrow> (case s of [] \<Rightarrow> False | x # s' \<Rightarrow> x = e \<and> regexMatch r' s'))
      else if c = 0x2E then
        (case r of
           [] \<Rightarrow> (case s of [] \<Rightarrow> False | x # s' \<Rightarrow> \<not> lineTerminator x \<and> regexMatch r s')
         | q # r' \<Rightarrow>
             if q = 0x2A
             then regexMatch r' s
                  \<or> (case s of [] \<Rightarrow> False | x # s' \<Rightarrow> \<not> lineTerminator x \<and> regexMatch (c # r) s')
             else (case s of [] \<Rightarrow> False | x # s' \<Rightarrow> \<not> lineTerminator x \<and> regexMatch r s'))
      else (case s of [] \<Rightarrow> False | x # s' \<Rightarrow> x = c \<and> regexMatch r s'))"

definition regexTest :: "jsstring \<Rightarrow> jsstring \<Rightarrow> bool" where
  "regexTest source key = (case source of [] \<Rightarrow> False | c # r \<Rightarrow> c = 0x5E \<and> regexMatch r key)"

definition isModelEnabled ::
  "(jsstring \<Rightarrow> jsstring) \<Rightarrow> jsstring \<Rightarrow> jsstring \<Rightarrow> jsstring set option \<Rightarrow> bool" where
  "isModelEnabled U provider modelId enabled =
     (case enabled of
        None \<Rightarrow> True
      | Some E \<Rightarrow>
          (let key = toLowerCase U (provider @ js ''/'' @ modelId)
           in if key \<in> E then True
              else (\<exists>pattern \<in> E. (0x2A \<in> set pattern \<or> 0x3F \<in> set pattern)
                                   \<and> regexTest (globSource pattern) key)))"

text \<open>
  Glob matching as the specification words it: a pattern matches a key when its
  characters are the key's, where \<open>*\<close> stands for any run of characters and \<open>?\<close> for any
  one character.
\<close>

fun globMatch :: "jsstring \<Rightarrow> jsstring \<Rightarrow> bool" where
  "globMatch [] s = (s = [])"
| "globMatch (p # ps) s =
     (if p = 0x2A
      then globMatch ps s \<or> (case s of [] \<Rightarrow> False | x # s' \<Rightarrow> globMatch (p # ps) s')
      else if p = 0x3F then (case s of [] \<Rightarrow> False | x # s' \<Rightarrow> globMatch ps s')
      else (case s of [] \<Rightarrow> False | x # s' \<Rightarrow> x = p \<and> globMatch ps s'))"

text \<open>
  The source that the three replacements produce, read pattern character by pattern
  character.
\<close>

definition globToken :: "jschar \<Rightarrow> jsstring" where
  "globToken c =
     (if c = 0x2A then [0x2E, 0x2A] else if c = 0x3F then [0x2E]
      else if regexSpecial c then [0x5C, c] else [c])"

definition globBody :: "jsstring \<Rightarrow> jsstring" where
  "globBody p = replaceQuestion (replaceStar (escapeRegex p))"

section \<open>The leader-key palette\<close>

text \<open>The effect of an action is a function of the host; its type is the parameter \<open>'a\<close>.\<close>

record 'a ActionItem =
  ai_key :: jsstring
  ai_label :: jsstring
  ai_description :: "jsstring option"
  ai_action :: 'a

record 'a ActionGroup =
  ag_key :: jsstring
  ag_label :: jsstring
  ag_items :: "'a ActionItem list"

datatype 'a TopLevelEntry =
    GroupEntry "'a ActionGroup"
  | ActionEntry (te_key: jsstring) (te_label: jsstring) (te_description: "jsstring option")
      (te_action: 'a)

datatype 'a View = Root | InGroup "'a ActionGroup"

record 'a overlay_state =
  lk_view :: "'a View"
  lk_highlightedIndex :: int

definition overlay_init :: "'a overlay_state" where
  "overlay_init = \<lparr>lk_view = Root, lk_highlightedIndex = 0\<rparr>"

text \<open>A row of the list on screen.\<close>

record row =
  row_key :: jsstring
  row_label :: jsstring
  row_description :: "jsstring option"

definition actionsText :: "nat \<Rightarrow> jsstring" where
  "actionsText n = digits n @ js '' action'' @ (if n \<noteq> 1 then js ''s'' else [])"

fun entryRow :: "'a TopLevelEntry \<Rightarrow> row" where
  "entryRow (GroupEntry g) =
     \<lparr>row_key = ag_key g, row_label = ag_label g,
      row_description = Some (actionsText (length (ag_items g)))\<rparr>"
| "entryRow (ActionEntry k l d a) = \<lparr>row_key = k, row_label = l, row_description = d\<rparr>"

definition itemRow :: "'a ActionItem \<Rightarrow> row" where
  "itemRow a = \<lparr>row_key = ai_key a, row_label = ai_label a, row_description = ai_description a\<rparr>"

definition currentItems :: "'a TopLevelEntry list \<Rightarrow> 'a overlay_state \<Rightarrow> row list" where
  "currentItems entries st =
     (case lk_view st of Root \<Rightarrow> map entryRow entries | InGroup g \<Rightarrow> map itemRow (ag_items g))"

text \<open>The key an entry of the root view is found by.\<close>

fun entryKey :: "'a TopLevelEntry \<Rightarrow> jsstring" where
  "entryKey (GroupEntry g) = ag_key g"
| "entryKey (ActionEntry k l d a) = k"

definition handleRootSelection ::
  "'a TopLevelEntry list \<Rightarrow> 'a overlay_state \<Rightarrow> jsstring
     \<Rightarrow> 'a overlay_state \<times> 'a ActionItem option outcome" where
  "handleRootSelection entries st key =
     (case find (\<lambda>e. entryKey e = key) entries of
        None \<Rightarrow> (st, NoOutcome)
      | Some (GroupEntry g) \<Rightarrow> (st\<lparr>lk_view := InGroup g, lk_highlightedIndex := 0\<rparr>, NoOutcome)
      | Some (ActionEntry k l d a) \<Rightarrow>
          (st, Done (Some \<lparr>ai_key = k, ai_label = l, ai_description = d, ai_action = a\<rparr>)))"

text \<open>
  The block that the handler repeats for the highlighted row, for the parsed key and for
  the raw character: select in the root view, or run the action of the group with this
  key.
\<close>

definition selectKey ::
  "'a TopLevelEntry list \<Rightarrow> 'a overlay_state \<Rightarrow> jsstring
     \<Rightarrow> 'a overlay_state \<times> 'a ActionItem option outcome" where
  "selectKey entries st key =
     (case lk_view st of
        Root \<Rightarrow> handleRootSelection entries st key
      | InGroup g \<Rightarrow>
          (case find (\<lambda>a. ai_key a = key) (ag_items g) of
             None \<Rightarrow> (st, NoOutcome)
           | Some action \<Rightarrow> (st, Done (Some action))))"

text \<open>Escape, Ctrl+C and backspace: back to the root view, or close.\<close>

definition goBack :: "'a overlay_state \<Rightarrow> 'a overlay_state \<times> 'a ActionItem option outcome" where
  "goBack st =
     (case lk_view st of
        InGroup g \<Rightarrow> (st\<lparr>lk_view := Root, lk_highlightedIndex := 0\<rparr>, NoOutcome)
      | Root \<Rightarrow> (st, Done None))"

text \<open>
  The parsed key when \<open>parsed && parsed.length === 1 && parsed >= "a" && parsed <= "z"\<close>
  holds.
\<close>

definition parsedLetter :: "jsstring option \<Rightarrow> jsstring option" where
  "parsedLetter parsed =
     (case parsed of
        None \<Rightarrow> None
      | Some t \<Rightarrow>
          if t \<noteq> [] \<and> length t = 1 \<and> js_le (js ''a'') t \<and> js_le t (js ''z'')
          then Some t else None)"

definition overlay_handleInput ::
  "matcher \<Rightarrow> keyparser \<Rightarrow> (jsstring \<Rightarrow> jsstring) \<Rightarrow> 'a TopLevelEntry list
     \<Rightarrow> 'a overlay_state \<Rightarrow> jsstring \<Rightarrow> 'a overlay_state \<times> 'a ActionItem option outcome" where
  "overlay_handleInput mk pk U entries st data =
     (if mk data Escape \<or> mk data CtrlC then goBack st
      else if mk data Backspace then goBack st
      else if mk data Up
        then (st\<lparr>lk_highlightedIndex := max 0 (lk_highlightedIndex st - 1)\<rparr>, NoOutcome)
      else if mk data Down
        then (st\<lparr>lk_highlightedIndex :=
                   min (int (length (currentItems entries st)) - 1) (lk_highlightedIndex st + 1)\<rparr>,
              NoOutcome)
      else if mk data Enter \<or> mk data Return then
        (if lk_highlightedIndex st \<ge> 0
            \<and> lk_highlightedIndex st < int (length (currentItems entries st))
         then selectKey entries st
                (row_key (currentItems entries st ! nat (lk_highlightedIndex st)))
         else (st, NoOutcome))
      else
        (case parsedLetter (pk data) of
           Some parsed \<Rightarrow> selectKey entries st (toLowerCase U parsed)
         | None \<Rightarrow>
             if isPrintable data then selectKey entries st (toLowerCase U data)
             else (st, NoOutcome)))"

text \<open>
  The input is a direct press of the key \<open>k\<close>: the library parses it to the lower-case
  letter \<open>k\<close>, or it parses it to no such letter and the input is the one printable
  character that is \<open>k\<close> in lower case. It matches none of the keys the palette handles
  before.
\<close>

definition chordPress :: "matcher \<Rightarrow> keyparser \<Rightarrow> jsstring \<Rightarrow> jschar \<Rightarrow> bool" where
  "chordPress mk pk data k =
     (\<not> mk data Escape \<and> \<not> mk data CtrlC \<and> \<not> mk data Backspace \<and> \<not> mk data Up
      \<and> \<not> mk data Down \<and> \<not> mk data Enter \<and> \<not> mk data Return
      \<and> ((pk data = Some [k] \<and> 0x61 \<le> k \<and> k \<le> 0x7A)
         \<or> (parsedLetter (pk data) = None \<and> isPrintable data \<and> map ascii_lower data = [k])))"

section \<open>The favourites quick picker\<close>

text \<open>
  The values \<open>JSON.parse\<close> returns. An object lists each of its keys once, with its
  value; the payload of a number is never looked at.
\<close>

datatype json =
    JNull
  | JBool bool
  | JNumber int
  | JString jsstring
  | JArray "json list"
  | JObject "(jsstring \<times> json) list"

datatype js_error = JsTypeError

text \<open>
  The member \<open>name\<close> (one of \<open>key\<close>, \<open>label\<close>, \<open>provider\<close>, \<open>model\<close>) of a parsed value
  that is not \<open>null\<close>: the member of an object, and \<open>undefined\<close> (\<open>None\<close>) on an object
  without it and on every other value. Reading a property of \<open>null\<close> is a \<open>TypeError\<close>.
\<close>

fun member :: "json \<Rightarrow> jsstring \<Rightarrow> json option" where
  "member (JObject kvs) name = map_of kvs name"
| "member v name = None"

definition getProp :: "json \<Rightarrow> jsstring \<Rightarrow> js_error + json option" where
  "getProp v name = (if v = JNull then Inl JsTypeError else Inr (member v name))"

text \<open>\<open>typeof x === "string"\<close>, and \<open>x.length\<close> of such a value.\<close>

fun isString :: "json option \<Rightarrow> bool" where
  "isString (Some (JString t)) = True"
| "isString v = False"

fun stringLength :: "json option \<Rightarrow> nat" where
  "stringLength (Some (JString t)) = length t"
| "stringLength v = 0"

definition MAX_FAVOURITES :: nat where
  "MAX_FAVOURITES = 8"

text \<open>
  The callback of \<open>filter\<close>. The first property it reads is \<open>e.key\<close>; the others are read
  on the same value, which is not \<open>null\<close> then.
\<close>

definition validEntry :: "json \<Rightarrow> js_error + bool" where
  "validEntry e =
     (case getProp e (js ''key'') of
        Inl err \<Rightarrow> Inl err
      | Inr k \<Rightarrow>
          Inr (isString k \<and> stringLength k = 1
               \<and> isString (member e (js ''label''))
               \<and> isString (member e (js ''provider''))
               \<and> isString (member e (js ''model''))))"

text \<open>\<open>Array.prototype.filter\<close> with a callback that may throw: the first throw ends it.\<close>

fun filterEntries :: "json list \<Rightarrow> js_error + json list" where
  "filterEntries [] = Inr []"
| "filterEntries (e # es) =
     (case validEntry e of
        Inl err \<Rightarrow> Inl err
      | Inr keep \<Rightarrow>
          (case filterEntries es of
             Inl err \<Rightarrow> Inl err
           | Inr rest \<Rightarrow> Inr (if keep then e # rest else rest)))"

text \<open>
  \<open>loadFavourites\<close>. \<open>file\<close> is what \<open>readFileSync\<close> returns (\<open>None\<close> when it throws) and
  \<open>parse\<close> is \<open>JSON.parse\<close> (\<open>None\<close> when it throws); every throw inside \<open>try\<close> ends in
  \<open>return []\<close>.
\<close>

definition loadFavourites :: "(jsstring \<Rightarrow> json option) \<Rightarrow> jsstring option \<Rightarrow> json list" where
  "loadFavourites parse file =
     (case file of
        None \<Rightarrow> []
      | Some raw \<Rightarrow>
          (case parse raw of
             None \<Rightarrow> []
           | Some (JArray parsed) \<Rightarrow>
               (case filterEntries parsed of
                  Inl err \<Rightarrow> []
                | Inr kept \<Rightarrow> take MAX_FAVOURITES kept)
           | Some other \<Rightarrow> []))"

text \<open>An entry of the list, as the picker reads it.\<close>

record FavouriteModelEntry =
  fav_key :: jsstring
  fav_label :: jsstring
  fav_provider :: jsstring
  fav_model :: jsstring
  fav_thinking :: "jsstring option"

text \<open>
  \<open>pressedKey\<close>: \<open>keyChar || rawChar\<close>, where a string counts as absent when it is \<open>null\<close>
  or empty.
\<close>

definition truthy :: "jsstring option \<Rightarrow> bool" where
  "truthy v = (case v of None \<Rightarrow> False | Some t \<Rightarrow> t \<noteq> [])"

definition pressedKey ::
  "keyparser \<Rightarrow> (jsstring \<Rightarrow> jsstring) \<Rightarrow> jsstring \<Rightarrow> jsstring option" where
  "pressedKey pk U data =
     (let keyChar = (case pk data of
                       None \<Rightarrow> None
                     | Some parsed \<Rightarrow>
                         if parsed \<noteq> [] \<and> length parsed = 1
                         then Some (toLowerCase U parsed) else None);
          rawChar = (if isPrintable data then Some (toLowerCase U data) else None)
      in if truthy keyChar then keyChar else rawChar)"

text \<open>
  \<open>handleInput(data)\<close> of the picker: the new highlighted index, the outcome and whether
  a render was requested.
\<close>

definition fav_handleInput ::
  "matcher \<Rightarrow> keyparser \<Rightarrow> (jsstring \<Rightarrow> jsstring) \<Rightarrow> FavouriteModelEntry list \<Rightarrow> int
     \<Rightarrow> jsstring \<Rightarrow> int \<times> FavouriteModelEntry option outcome \<times> bool" where
  "fav_handleInput mk pk U favourites hi data =
     (if mk data Escape \<or> mk data CtrlC then (hi, Done None, False)
      else if mk data Backspace then (hi, Done None, False)
      else if mk data Up \<or> mk data CtrlP then (max 0 (hi - 1), NoOutcome, True)
      else if mk data Down \<or> mk data CtrlN
        then (min (int (length favourites) - 1) (hi + 1), NoOutcome, True)
      else if mk data Enter then
        (if hi \<ge> 0 \<and> hi < int (length favourites)
         then (hi, Done (Some (favourites ! nat hi)), False)
         else (hi, NoOutcome, False))
      else
        (case pressedKey pk U data of
           None \<Rightarrow> (hi, NoOutcome, False)
         | Some key \<Rightarrow>
             if key = [] then (hi, NoOutcome, False)
             else (case find (\<lambda>f. toLowerCase U (fav_key f) = key) favourites of
                     None \<Rightarrow> (hi, NoOutcome, False)
                   | Some match \<Rightarrow> (hi, Done (Some match), False))))"

section \<open>The model switcher\<close>

record Model =
  m_provider :: jsstring
  m_id :: jsstring
  m_name :: jsstring
  m_reasoning :: bool
  m_input :: "jsstring list"

record ProviderInfo =
  pi_name :: jsstring
  pi_modelCount :: nat

text \<open>
  What the flow reads from its surroundings: \<open>ctx.hasUI\<close>, \<open>ctx.model\<close>, the registry
  (\<open>getAvailable()\<close>, \<open>find(provider, id)\<close>), the enabled models of the settings,
  \<open>pi.getThinkingLevel()\<close>, whether \<open>pi.setModel(model)\<close> succeeds, and the two functions
  of the runtime, \<open>localeCompare\<close> and the case conversion outside ASCII.
\<close>

record host =
  hasUI :: bool
  currentModel :: "Model option"
  getAvailable :: "Model list"
  registryFind :: "jsstring \<Rightarrow> jsstring \<Rightarrow> Model option"
  enabledModels :: "jsstring list option"
  getThinkingLevel :: jsstring
  setModelOk :: "Model \<Rightarrow> bool"
  localeCompare :: "jsstring \<Rightarrow> jsstring \<Rightarrow> int"
  unicodeLower :: "jsstring \<Rightarrow> jsstring"

datatype severity = Info | Warning | Error

text \<open>What the flow does to its surroundings, in the order it does it.\<close>

datatype event =
    ShowSelect jsstring "SearchableItem list" "jsstring option"
  | Notify jsstring severity
  | SetModel Model
  | SetThinkingLevel jsstring

fun isShow :: "event \<Rightarrow> bool" where
  "isShow (ShowSelect title items help) = True"
| "isShow e = False"

text \<open>The flow has returned, or it waits for a select list that nobody has answered.\<close>

datatype status = Returned | Awaiting

text \<open>
  \<open>Array.prototype.sort\<close> is stable; with a comparator that orders the elements, as
  \<open>localeCompare\<close> does, its result is the one of a stable insertion sort.
\<close>

fun insertSorted :: "('a \<Rightarrow> 'a \<Rightarrow> int) \<Rightarrow> 'a \<Rightarrow> 'a list \<Rightarrow> 'a list" where
  "insertSorted cmp x [] = [x]"
| "insertSorted cmp x (y # ys) =
     (if cmp x y \<le> 0 then x # y # ys else y # insertSorted cmp x ys)"

fun sortWith :: "('a \<Rightarrow> 'a \<Rightarrow> int) \<Rightarrow> 'a list \<Rightarrow> 'a list" where
  "sortWith cmp [] = []"
| "sortWith cmp (x # xs) = insertSorted cmp x (sortWith cmp xs)"

definition getAvailableEnabledModels :: "host \<Rightarrow> Model list" where
  "getAvailableEnabledModels h =
     (let enabled = getEnabledModelSet (unicodeLower h) (enabledModels h)
      in filter (\<lambda>m. isModelEnabled (unicodeLower h) (m_provider m) (m_id m) enabled)
           (getAvailable h))"

text \<open>
  \<open>providerMap.set(provider, (providerMap.get(provider) ?? 0) + 1)\<close> on a \<open>Map\<close>, which
  keeps its keys in the order of their first insertion.
\<close>

definition countProvider :: "(jsstring \<times> nat) list \<Rightarrow> jsstring \<Rightarrow> (jsstring \<times> nat) list" where
  "countProvider providerMap name =
     (case map_of providerMap name of
        None \<Rightarrow> providerMap @ [(name, 1)]
      | Some n \<Rightarrow> map (\<lambda>(k, v). if k = name then (k, n + 1) else (k, v)) providerMap)"

definition getProviders :: "host \<Rightarrow> ProviderInfo list" where
  "getProviders h =
     sortWith (\<lambda>a b. localeCompare h (pi_name a) (pi_name b))
       (map (\<lambda>(name, count). \<lparr>pi_name = name, pi_modelCount = count\<rparr>)
          (foldl countProvider [] (map m_provider (getAvailableEnabledModels h))))"

definition getModelsForProvider :: "host \<Rightarrow> jsstring \<Rightarrow> Model list" where
  "getModelsForProvider h provider =
     sortWith (\<lambda>a b. localeCompare h (m_name a) (m_name b))
       (filter (\<lambda>m. m_provider m = provider) (getAvailableEnabledModels h))"

definition ALL_THINKING_LEVELS :: "jsstring list" where
  "ALL_THINKING_LEVELS =
     [js ''off'', js ''minimal'', js ''low'', js ''medium'', js ''high'', js ''xhigh'']"

definition getThinkingDescription :: "jsstring \<Rightarrow> jsstring" where
  "getThinkingDescription level =
     (if level = js ''off'' then js ''No extended thinking''
      else if level = js ''minimal'' then js ''Minimal reasoning effort''
      else if level = js ''low'' then js ''Low reasoning effort''
      else if level = js ''medium'' then js ''Moderate reasoning effort''
      else if level = js ''high'' then js ''High reasoning effort''
      else if level = js ''xhigh'' then js ''Maximum reasoning effort''
      else [])"

definition providerItem :: "jsstring option \<Rightarrow> ProviderInfo \<Rightarrow> SearchableItem" where
  "providerItem currentProvider p =
     \<lparr>item_value = pi_name p,
      item_label = pi_name p @ (if Some (pi_name p) = currentProvider then js '' (current)'' else []),
      item_description =
        Some (digits (pi_modelCount p) @ js '' model''
              @ (if pi_modelCount p \<noteq> 1 then js ''s'' else []))\<rparr>"

text \<open>\<open>features.join(", ")\<close> of the features a model has.\<close>

definition featuresText :: "Model \<Rightarrow> jsstring" where
  "featuresText m =
     (if m_reasoning m \<and> js ''image'' \<in> set (m_input m) then js ''reasoning, vision''
      else if m_reasoning m then js ''reasoning''
      else if js ''image'' \<in> set (m_input m) then js ''vision''
      else [])"

definition modelItem :: "jsstring option \<Rightarrow> jsstring option \<Rightarrow> Model \<Rightarrow> SearchableItem" where
  "modelItem currentProvider currentModelId m =
     \<lparr>item_value = m_id m,
      item_label = m_name m
        @ (if Some (m_provider m) = currentProvider \<and> Some (m_id m) = currentModelId
           then js '' (current)'' else []),
      item_description = Some (featuresText m)\<rparr>"

definition thinkingItem :: "jsstring \<Rightarrow> jsstring \<Rightarrow> SearchableItem" where
  "thinkingItem currentThinking level =
     \<lparr>item_value = level,
      item_label = (if level = currentThinking then level @ js '' (current)'' else level),
      item_description = Some (getThinkingDescription level)\<rparr>"

definition selectHelp :: jsstring where
  "selectHelp =
     js ''type to search '' @ [0x2022] @ js '' '' @ [0x2191, 0x2193] @ js '' navigate ''
     @ [0x2022] @ js '' enter select '' @ [0x2022] @ js '' esc cancel''"

text \<open>
  \<open>runModelSwitcher\<close>. Each \<open>await searchableSelect(...)\<close> shows a list and takes the
  next answer of \<open>answers\<close>: the chosen value, or \<open>None\<close> for \<open>null\<close>; when no answer is
  left the flow stays at that \<open>await\<close>. The three awaits cut the body into the parts
  below, last part first. The function has the same body in the leader-key extension and
  in the earlier standalone extension.
\<close>

definition applySelection :: "host \<Rightarrow> jsstring \<Rightarrow> jsstring \<Rightarrow> Model \<Rightarrow> jsstring \<Rightarrow> event list" where
  "applySelection h selectedProvider selectedModelId selectedModel selectedThinking =
     SetModel selectedModel #
     (if \<not> setModelOk h selectedModel
      then [Notify (js ''No API key available for '' @ selectedProvider @ js ''/'' @ selectedModelId)
              Warning]
      else (if m_reasoning selectedModel then [SetThinkingLevel selectedThinking] else [])
           @ [Notify (js ''Switched to '' @ m_name selectedModel
                      @ (if m_reasoning selectedModel
                         then js '' (thinking: '' @ selectedThinking @ js '')'' else []))
                Info])"

definition thinkingStep ::
  "host \<Rightarrow> jsstring \<Rightarrow> jsstring \<Rightarrow> jsstring option list \<Rightarrow> event list \<times> status" where
  "thinkingStep h selectedProvider selectedModelId answers =
     (case registryFind h selectedProvider selectedModelId of
        None \<Rightarrow>
          ([Notify (js ''Model '' @ selectedProvider @ js ''/'' @ selectedModelId @ js '' not found'')
              Error], Returned)
      | Some selectedModel \<Rightarrow>
          if m_reasoning selectedModel then
            (let shown = ShowSelect (js ''Thinking Level ('' @ m_name selectedModel @ js '')'')
                           (map (thinkingItem (getThinkingLevel h)) ALL_THINKING_LEVELS)
                           (Some selectHelp)
             in case answers of
                  [] \<Rightarrow> ([shown], Awaiting)
                | None # rest \<Rightarrow> ([shown], Returned)
                | Some thinkingChoice # rest \<Rightarrow>
                    if thinkingChoice = [] then ([shown], Returned)
                    else (shown # applySelection h selectedProvider selectedModelId selectedModel
                                    thinkingChoice, Returned))
          else (applySelection h selectedProvider selectedModelId selectedModel
                  (getThinkingLevel h), Returned))"

definition modelStep :: "host \<Rightarrow> jsstring \<Rightarrow> jsstring option list \<Rightarrow> event list \<times> status" where
  "modelStep h selectedProvider answers =
     (let models = getModelsForProvider h selectedProvider
      in if length models = 0
         then ([Notify (js ''No models found for provider '' @ [0x22] @ selectedProvider @ [0x22])
                  Warning], Returned)
         else
           (let shown = ShowSelect (js ''Select Model ('' @ selectedProvider @ js '')'')
                          (map (modelItem (map_option m_provider (currentModel h))
                                  (map_option m_id (currentModel h))) models)
                          None
            in case answers of
                 [] \<Rightarrow> ([shown], Awaiting)
               | None # rest \<Rightarrow> ([shown], Returned)
               | Some selectedModelId # rest \<Rightarrow>
                   if selectedModelId = [] then ([shown], Returned)
                   else (case thinkingStep h selectedProvider selectedModelId rest of
                           (log, st) \<Rightarrow> (shown # log, st))))"

definition runModelSwitcher :: "host \<Rightarrow> jsstring option list \<Rightarrow> event list \<times> status" where
  "runModelSwitcher h answers =
     (if \<not> hasUI h then ([], Returned)
      else
        (let providers = getProviders h
         in if length providers = 0
            then ([Notify (js ''No providers available'') Warning], Returned)
            else
              (let shown = ShowSelect (js ''Select Provider'')
                             (map (providerItem (map_option m_provider (currentModel h))) providers)
                             None
               in case answers of
                    [] \<Rightarrow> ([shown], Awaiting)
                  | None # rest \<Rightarrow> ([shown], Returned)
                  | Some selectedProvider # rest \<Rightarrow>
                      if selectedProvider = [] then ([shown], Returned)
                      else (case modelStep h selectedProvider rest of
                              (log, st) \<Rightarrow> (shown # log, st)))))"

text \<open>A comparator to run the flow with: the order of the code units.\<close>

definition codeUnitCompare :: "jsstring \<Rightarrow> jsstring \<Rightarrow> int" where
  "codeUnitCompare a b = (if a = b then 0 else if js_le a b then - 1 else 1)"

section \<open>Sample data\<close>

text \<open>
  One possible \<open>parseKey\<close>: a printable character is its own name, anything else has
  none.
\<close>

definition legacyParse :: keyparser where
  "legacyParse data = (if isPrintable data then Some data else None)"

text \<open>
  Another possible \<open>parseKey\<close>, for a terminal with the keyboard protocol: the escape
  sequence \<open>CSI 103 u\<close> is the key \<open>g\<close> and \<open>CSI 120 u\<close> the key \<open>x\<close>, a capital letter is
  named \<open>shift+\<close> and its small letter, and any other input is parsed as before.
\<close>

definition kittyParse :: keyparser where
  "kittyParse data =
     (if data = [0x1B, 0x5B, 0x31, 0x30, 0x33, 0x75] then Some (js ''g'')
      else if data = [0x1B, 0x5B, 0x31, 0x32, 0x30, 0x75] then Some (js ''x'')
      else if length data = 1 \<and> js_le (js ''A'') data \<and> js_le data (js ''Z'')
        then Some (js ''shift+'' @ map ascii_lower data)
      else legacyParse data)"

text \<open>A palette with one group and one direct action; the effects are left out.\<close>

definition sampleGroup :: "unit ActionGroup" where
  "sampleGroup =
     \<lparr>ag_key = js ''s'', ag_label = js ''Session'',
      ag_items = [\<lparr>ai_key = js ''n'', ai_label = js ''New session'',
                   ai_description = Some (js ''start fresh''), ai_action = ()\<rparr>]\<rparr>"

definition sampleEntries :: "unit TopLevelEntry list" where
  "sampleEntries = [GroupEntry sampleGroup, ActionEntry (js ''m'') (js ''Model'') None ()]"

text \<open>A well-formed entry of the favourites file, as parsed and as the picker reads it.\<close>

definition sampleFavouriteJson :: json where
  "sampleFavouriteJson =
     JObject [(js ''key'', JString (js ''g'')), (js ''label'', JString (js ''Gemini'')),
              (js ''provider'', JString (js ''google'')), (js ''model'', JString (js ''gemini-pro''))]"

definition sampleFavourites :: "FavouriteModelEntry list" where
  "sampleFavourites =
     [\<lparr>fav_key = js ''1'', fav_label = js ''Claude'', fav_provider = js ''anthropic'',
       fav_model = js ''claude-x'', fav_thinking = Some (js ''high'')\<rparr>,
      \<lparr>fav_key = js ''g'', fav_label = js ''Gemini'', fav_provider = js ''google'',
       fav_model = js ''gemini-pro'', fav_thinking = None\<rparr>]"

text \<open>A host with two providers; the model of the first one supports reasoning.\<close>

definition sampleModels :: "Model list" where
  "sampleModels =
     [\<lparr>m_provider = js ''openai'', m_id = js ''gpt-y'', m_name = js ''GPT Y'',
       m_reasoning = False, m_input = [js ''text'', js ''image'']\<rparr>,
      \<lparr>m_provider = js ''anthropic'', m_id = js ''claude-x'', m_name = js ''Claude X'',
       m_reasoning = True, m_input = [js ''text'']\<rparr>]"

definition sampleHost :: host where
  "sampleHost =
     \<lparr>hasUI = True, currentModel = None, getAvailable = sampleModels,
      registryFind = (\<lambda>p i. find (\<lambda>m. m_provider m = p \<and> m_id m = i) sampleModels),
      enabledModels = None, getThinkingLevel = js ''off'', setModelOk = (\<lambda>m. True),
      localeCompare = codeUnitCompare, unicodeLower = (\<lambda>t. t)\<rparr>"

section \<open>Facts about strings and keys\<close>

lemma isPrintable_iff: "isPrintable d \<longleftrightarrow> (\<exists>c. d = [c] \<and> 0x20 \<le> c \<and> c \<le> 0x7E)"
  by (cases d; cases "tl d") (auto simp: isPrintable_def js_def)

lemma toLowerCase_letter: "0x61 \<le> k \<Longrightarrow> k \<le> 0x7A \<Longrightarrow> toLowerCase U [k] = [k]"
  by (simp add: toLowerCase_def ascii_lower_def word_le_nat_alt word_less_nat_alt)

lemma toLowerCase_printable: "isPrintable data \<Longrightarrow> toLowerCase U data = map ascii_lower data"
  by (auto simp: isPrintable_iff toLowerCase_def word_le_nat_alt word_less_nat_alt)

lemmas sample_defs =
  legacyMatches_def legacyParse_def isPrintable_def js_def plainItem_def select_init_def
  noControlKey_def

section \<open>The searchable select list: the filter state\<close>

lemma ensureVisible_keeps [simp]:
  "highlightedIndex (ensureVisible s) = highlightedIndex s"
  "filteredItems (ensureVisible s) = filteredItems s"
  "searchText (ensureVisible s) = searchText s"
  by (simp_all add: ensureVisible_def)

lemma select_inv_init: "select_inv (select_init items)"
  by (simp add: select_inv_def select_init_def MAX_VISIBLE_def)

lemma select_inv_applyFilter: "select_inv (applyFilter ff items s)"
  by (simp add: select_inv_def applyFilter_def MAX_VISIBLE_def)

lemma select_inv_moveUp: "select_inv s \<Longrightarrow> select_inv (moveUp s)"
  by (auto simp: select_inv_def moveUp_def ensureVisible_def MAX_VISIBLE_def split: if_splits)

lemma select_inv_moveDown:
  "select_inv s \<Longrightarrow> filteredItems s \<noteq> [] \<Longrightarrow> select_inv (moveDown s)"
  by (auto simp: select_inv_def moveDown_def ensureVisible_def MAX_VISIBLE_def split: if_splits)

text \<open>
  Every input event keeps the invariant, except for the one case of moving down on an
  empty filtered list.
\<close>

lemma select_inv_handleInput:
  assumes "select_inv s" and "filteredItems s \<noteq> [] \<or> \<not> (mk data Down \<or> mk data CtrlN)"
  shows "select_inv (fst (select_handleInput mk ff items s data))"
  using assms
  by (auto simp: select_handleInput_def select_inv_applyFilter select_inv_moveUp
      select_inv_moveDown)

text \<open>
  That case breaks it: after "down" on an empty filtered list the highlighted index is
  -1, whatever the matcher and the candidates are.
\<close>

lemma select_inv_down_on_empty:
  assumes "filteredItems s = []" and "select_inv s"
    and "\<not> mk data Escape" "\<not> mk data CtrlC" "\<not> mk data Backspace" "\<not> mk data Up"
      "\<not> mk data CtrlP" and "mk data Down \<or> mk data CtrlN"
  shows "highlightedIndex (fst (select_handleInput mk ff items s data)) = - 1"
    and "scrollOffset (fst (select_handleInput mk ff items s data)) = - 1"
    and "\<not> select_inv (fst (select_handleInput mk ff items s data))"
  using assms
  by (auto simp: select_handleInput_def select_inv_def moveDown_def ensureVisible_def
      MAX_VISIBLE_def)

text \<open>
  C3. After every input event the highlighted index is a position of the filtered list
  (0 when the list is empty), the scroll offset is not negative, and the highlighted row
  is inside the window of 15 rows. The handler breaks this when the filtered list is
  empty and the input is "down": with the one candidate \<open>a\<close>, typing \<open>z\<close> leaves no match
  and the invariant still holds, and "down" then sets both the highlighted index and the
  scroll offset to -1.
\<close>

theorem select_inv_broken_by_down:
  "select_inv (fst (select_run legacyMatches subseqFilter [plainItem ''a'']
                      (select_init [plainItem ''a'']) [js ''z'']))
   \<and> select_run legacyMatches subseqFilter [plainItem ''a''] (select_init [plainItem ''a''])
        [js ''z'', legacyKey Down]
      = (\<lparr>searchText = js ''z'', filteredItems = [], highlightedIndex = - 1,
          scrollOffset = - 1\<rparr>, NoOutcome)
   \<and> \<not> select_inv (fst (select_run legacyMatches subseqFilter [plainItem ''a'']
                          (select_init [plainItem ''a'']) [js ''z'', legacyKey Down]))"
  by (simp add: select_handleInput_def legacyMatches_def isPrintable_def js_def select_init_def
      plainItem_def applyFilter_def subseqFilter_def itemText_def ascii_lower_def moveDown_def
      ensureVisible_def MAX_VISIBLE_def select_inv_def)

section \<open>The searchable select list: navigation\<close>

lemma moveDown_upper: "highlightedIndex (moveDown s) \<le> int (length (filteredItems s)) - 1"
  by (simp add: moveDown_def)

lemma moveUp_lower: "0 \<le> highlightedIndex (moveUp s)"
  by (simp add: moveUp_def)

lemma filteredItems_moveDown: "filteredItems (moveDown s) = filteredItems s"
  by (simp add: moveDown_def)

lemma filteredItems_funpow_moveDown: "filteredItems ((moveDown ^^ n) s) = filteredItems s"
  by (induction n) (simp_all add: filteredItems_moveDown)

text \<open>Moving down any number of times, at least once, ends at or before the last row.\<close>

lemma funpow_moveDown_upper:
  assumes "0 < n"
  shows "highlightedIndex ((moveDown ^^ n) s) \<le> int (length (filteredItems s)) - 1"
proof -
  obtain m where n: "n = Suc m"
    using assms by (cases n) simp_all
  have "highlightedIndex (moveDown ((moveDown ^^ m) s))
          \<le> int (length (filteredItems ((moveDown ^^ m) s))) - 1"
    by (rule moveDown_upper)
  then show ?thesis
    using n by (simp add: filteredItems_funpow_moveDown)
qed

text \<open>On a list that is not empty both moves keep an index that is a position of the list in the list.\<close>

lemma moveDown_in_range:
  "0 \<le> highlightedIndex s \<Longrightarrow> highlightedIndex s \<le> int (length (filteredItems s)) - 1
   \<Longrightarrow> 0 \<le> highlightedIndex (moveDown s)
       \<and> highlightedIndex (moveDown s) \<le> int (length (filteredItems s)) - 1"
  by (cases "filteredItems s") (auto simp: moveDown_def)

lemma moveUp_in_range:
  "0 \<le> highlightedIndex s \<Longrightarrow> highlightedIndex s \<le> int (length (filteredItems s)) - 1
   \<Longrightarrow> 0 \<le> highlightedIndex (moveUp s)
       \<and> highlightedIndex (moveUp s) \<le> int (length (filteredItems s)) - 1"
  by (cases "filteredItems s") (auto simp: moveUp_def)

text \<open>
  C4. Moving down as many times as the filtered list is long never takes the highlighted
  index past the last row, and moving up and down keep the index between 0 and the last
  row. The upper bound holds in every state (\<open>funpow_moveDown_upper\<close>), and both bounds
  hold on a list that is not empty (\<open>moveDown_in_range\<close>, \<open>moveUp_in_range\<close>). On an empty
  filtered list, in the state that typing a query without a match leads to, moving down
  takes the index from 0 to -1, below the lower bound; moving up then brings the index
  back to 0 and leaves the scroll offset at -1.
\<close>

theorem moveDown_empty_below_zero:
  "fst (select_handleInput legacyMatches subseqFilter [plainItem ''a'']
          (select_init [plainItem ''a'']) (js ''z''))
     = \<lparr>searchText = js ''z'', filteredItems = [], highlightedIndex = 0, scrollOffset = 0\<rparr>
   \<and> highlightedIndex
       (moveDown \<lparr>searchText = js ''z'', filteredItems = [], highlightedIndex = 0,
                  scrollOffset = 0\<rparr>) = - 1
   \<and> highlightedIndex
       (moveUp (moveDown \<lparr>searchText = js ''z'', filteredItems = [], highlightedIndex = 0,
                          scrollOffset = 0\<rparr>)) = 0
   \<and> scrollOffset
       (moveUp (moveDown \<lparr>searchText = js ''z'', filteredItems = [], highlightedIndex = 0,
                          scrollOffset = 0\<rparr>)) = - 1"
  by (simp add: moveDown_def moveUp_def ensureVisible_def MAX_VISIBLE_def
      select_handleInput_def sample_defs applyFilter_def subseqFilter_def itemText_def
      ascii_lower_def)

section \<open>The searchable select list: the query\<close>

text \<open>
  C5. With an empty query the filter step is the identity on the candidates the list was
  built with: the filtered list is that list, in its order, whatever the matcher is. This
  holds at the start, in \<open>applyFilter\<close> and in \<open>applyFuzzyFilter\<close> of the earlier model
  switcher.
\<close>

theorem applyFilter_empty_query:
  "filteredItems (select_init items) = items
   \<and> filteredItems (applyFilter ff items (s\<lparr>searchText := []\<rparr>)) = items
   \<and> sl_filteredItems (applyFuzzyFilter ff items [] sl) = items"
  by (simp add: select_init_def applyFilter_def applyFuzzyFilter_def)

text \<open>
  C6. In every state, a printable character \<open>c\<close> that is none of the control keys is
  appended to the query, the candidates are filtered again with the new query, and the
  highlighted index and the scroll offset are 0. Backspace on a query that is not empty
  removes its last character and filters again in the same way (with all candidates when
  the query has become empty); backspace on an empty query changes nothing and produces
  no outcome.
\<close>

theorem handleInput_query_edit:
  "(noControlKey mk [c] \<and> 0x20 \<le> c \<and> c \<le> 0x7E \<longrightarrow>
      select_handleInput mk ff items s [c] =
        (\<lparr>searchText = searchText s @ [c],
          filteredItems = ff items (searchText s @ [c]) itemText,
          highlightedIndex = 0, scrollOffset = 0\<rparr>, NoOutcome, True))
   \<and> (\<not> mk d Escape \<and> \<not> mk d CtrlC \<and> mk d Backspace \<and> searchText s \<noteq> [] \<longrightarrow>
      select_handleInput mk ff items s d =
        (\<lparr>searchText = butlast (searchText s),
          filteredItems = (if butlast (searchText s) = [] then items
                           else ff items (butlast (searchText s)) itemText),
          highlightedIndex = 0, scrollOffset = 0\<rparr>, NoOutcome, True))
   \<and> (\<not> mk d Escape \<and> \<not> mk d CtrlC \<and> mk d Backspace \<and> searchText s = [] \<longrightarrow>
      select_handleInput mk ff items s d = (s, NoOutcome, False))"
  by (auto simp: select_handleInput_def noControlKey_def isPrintable_iff applyFilter_def)

theorem handleInput_query_edit_witness:
  "select_handleInput legacyMatches subseqFilter [plainItem ''ab''] (select_init [plainItem ''ab''])
     (js ''b'')
     = (\<lparr>searchText = js ''b'', filteredItems = [plainItem ''ab''], highlightedIndex = 0,
         scrollOffset = 0\<rparr>, NoOutcome, True)
   \<and> select_handleInput legacyMatches subseqFilter [plainItem ''ab'']
       \<lparr>searchText = js ''b'', filteredItems = [plainItem ''ab''], highlightedIndex = 0,
        scrollOffset = 0\<rparr> (legacyKey Backspace)
     = (select_init [plainItem ''ab''], NoOutcome, True)
   \<and> select_handleInput legacyMatches subseqFilter [plainItem ''ab''] (select_init [plainItem ''ab''])
       (legacyKey Backspace)
     = (select_init [plainItem ''ab''], NoOutcome, False)"
  using handleInput_query_edit [where mk = legacyMatches and c = "0x62" and ff = subseqFilter
      and items = "[plainItem ''ab'']" and s = "select_init [plainItem ''ab'']"
      and d = "legacyKey Backspace"]
    handleInput_query_edit [where mk = legacyMatches and c = "0x62" and ff = subseqFilter
      and items = "[plainItem ''ab'']"
      and s = "\<lparr>searchText = js ''b'', filteredItems = [plainItem ''ab''], highlightedIndex = 0,
                 scrollOffset = 0\<rparr>"
      and d = "legacyKey Backspace"]
  by (simp add: sample_defs subseqFilter_def itemText_def ascii_lower_def)

text \<open>
  C10. An input of one character below U+0020 or above U+007E that is none of the
  control keys (escape, Ctrl+C, backspace, up, down, Ctrl+P, Ctrl+N, enter) leaves the
  query, the filtered list, the highlighted index and the scroll offset as they are and
  produces no outcome. Only one character from U+0020 to U+007E is appended to the query:
  an input that is none of the control keys and has any effect is such a character.
\<close>

theorem handleInput_ignores_unprintable:
  "(noControlKey mk [c] \<and> (c < 0x20 \<or> 0x7E < c) \<longrightarrow>
      select_handleInput mk ff items s [c] = (s, NoOutcome, False))
   \<and> (noControlKey mk data \<and> select_handleInput mk ff items s data \<noteq> (s, NoOutcome, False) \<longrightarrow>
      (\<exists>c. data = [c] \<and> 0x20 \<le> c \<and> c \<le> 0x7E))"
  by (auto simp: select_handleInput_def noControlKey_def isPrintable_iff)

theorem handleInput_ignores_unprintable_witness:
  "select_handleInput legacyMatches subseqFilter [plainItem ''ab''] (select_init [plainItem ''ab''])
     [0x01] = (select_init [plainItem ''ab''], NoOutcome, False)
   \<and> select_handleInput legacyMatches subseqFilter [plainItem ''ab''] (select_init [plainItem ''ab''])
     [0xE9] = (select_init [plainItem ''ab''], NoOutcome, False)
   \<and> (\<exists>c. js ''b'' = [c] \<and> 0x20 \<le> c \<and> c \<le> 0x7E)"
  using handleInput_ignores_unprintable [where mk = legacyMatches and c = "0x01"
      and ff = subseqFilter and items = "[plainItem ''ab'']"
      and s = "select_init [plainItem ''ab'']" and data = "js ''b''"]
    handleInput_ignores_unprintable [where mk = legacyMatches and c = "0xE9"
      and ff = subseqFilter and items = "[plainItem ''ab'']"
      and s = "select_init [plainItem ''ab'']" and data = "js ''b''"]
  by (simp add: sample_defs select_handleInput_def applyFilter_def)

section \<open>The allow-list of enabled models\<close>

lemma regexSpecial_codes:
  "regexSpecial c \<longleftrightarrow>
     c \<in> {0x2E, 0x2B, 0x5E, 0x24, 0x7B, 0x7D, 0x28, 0x29, 0x7C, 0x5B, 0x5D, 0x5C}"
  by (auto simp: regexSpecial_def js_def)

lemma globBody_Nil: "globBody [] = []"
  by (simp add: globBody_def replaceQuestion_def replaceStar_def escapeRegex_def)

lemma globBody_Cons: "globBody (c # p) = globToken c @ globBody p"
  by (auto simp: globBody_def replaceQuestion_def replaceStar_def escapeRegex_def globToken_def
      regexSpecial_codes js_def)

text \<open>No token starts with \<open>*\<close>, so a \<open>.\<close> that stands for \<open>?\<close> is never read as \<open>.*\<close>.\<close>

lemma globBody_head: "globBody p @ [0x24] = q # r \<Longrightarrow> q \<noteq> 0x2A"
  by (cases p) (auto simp: globBody_Nil globBody_Cons globToken_def regexSpecial_codes
      split: if_splits)

text \<open>
  The regular expression of a pattern decides glob matching, on keys without line
  terminators. The induction follows \<open>globMatch\<close>; each case unfolds one token.
\<close>

lemma regexMatch_globMatch:
  "\<forall>x \<in> set s. \<not> lineTerminator x \<Longrightarrow> regexMatch (globBody p @ [0x24]) s = globMatch p s"
proof (induction p s rule: globMatch.induct)
  case (1 s)
  then show ?case by (simp add: globBody_Nil)
next
  case (2 p ps s)
  let ?R = "globBody ps @ [0x24]"
  have nolt: "\<forall>x \<in> set s. \<not> lineTerminator x" by (rule "2.prems")
  have tl_nolt: "\<And>x s'. s = x # s' \<Longrightarrow> \<forall>y \<in> set s'. \<not> lineTerminator y"
    using nolt by simp
  consider (star) "p = 0x2A" | (quest) "p = 0x3F" | (special) "regexSpecial p"
    | (plain) "p \<noteq> 0x2A" "p \<noteq> 0x3F" "\<not> regexSpecial p"
    by blast
  then show ?case
  proof cases
    case star
    have a: "regexMatch ?R s = globMatch ps s"
      using "2.IH"(1) [OF star nolt] .
    have b: "\<And>x s'. s = x # s'
        \<Longrightarrow> regexMatch (globBody (p # ps) @ [0x24]) s' = globMatch (p # ps) s'"
      using "2.IH"(2) [OF star] tl_nolt by blast
    show ?thesis
    proof (cases s)
      case Nil
      then show ?thesis using a star by (simp add: globBody_Cons globToken_def)
    next
      case (Cons x s')
      have "\<not> lineTerminator x" using nolt Cons by simp
      then show ?thesis using a b [OF Cons] star Cons
        by (simp add: globBody_Cons globToken_def)
    qed
  next
    case quest
    have a: "\<And>x s'. s = x # s' \<Longrightarrow> regexMatch ?R s' = globMatch ps s'"
      using "2.IH"(3) quest tl_nolt by simp
    have hd: "\<And>q r. ?R = q # r \<Longrightarrow> q \<noteq> 0x2A" by (rule globBody_head)
    show ?thesis
    proof (cases s)
      case Nil
      then show ?thesis using quest hd
        by (cases ?R) (auto simp: globBody_Cons globToken_def)
    next
      case (Cons x s')
      have "\<not> lineTerminator x" using nolt Cons by simp
      then show ?thesis using a [OF Cons] quest Cons hd
        by (cases ?R) (auto simp: globBody_Cons globToken_def)
    qed
  next
    case special
    then have ne: "p \<noteq> 0x2A" "p \<noteq> 0x3F" by (auto simp: regexSpecial_codes)
    have a: "\<And>x s'. s = x # s' \<Longrightarrow> regexMatch ?R s' = globMatch ps s'"
      using "2.IH"(4) ne tl_nolt by simp
    show ?thesis
    proof (cases s)
      case Nil
      then show ?thesis using special ne by (simp add: globBody_Cons globToken_def)
    next
      case (Cons x s')
      then show ?thesis using a [OF Cons] special ne
        by (auto simp: globBody_Cons globToken_def)
    qed
  next
    case plain
    then have ne: "p \<noteq> 0x24" "p \<noteq> 0x5C" "p \<noteq> 0x2E" by (auto simp: regexSpecial_codes)
    have a: "\<And>x s'. s = x # s' \<Longrightarrow> regexMatch ?R s' = globMatch ps s'"
      using "2.IH"(4) plain tl_nolt by simp
    show ?thesis
    proof (cases s)
      case Nil
      then show ?thesis using plain ne by (simp add: globBody_Cons globToken_def)
    next
      case (Cons x s')
      then show ?thesis using a [OF Cons] plain ne
        by (auto simp: globBody_Cons globToken_def)
    qed
  qed
qed

lemma regexTest_globMatch:
  "\<forall>x \<in> set s. \<not> lineTerminator x \<Longrightarrow> regexTest (globSource p) s = globMatch p s"
  using regexMatch_globMatch [of s p]
  by (simp add: regexTest_def globSource_def globBody_def js_def)

lemma globMatch_refl: "globMatch p p"
  by (induction p) auto

lemma globMatch_plain:
  "0x2A \<notin> set p \<Longrightarrow> 0x3F \<notin> set p \<Longrightarrow> globMatch p s = (s = p)"
  by (induction p arbitrary: s) (auto split: list.splits)

lemma isModelEnabled_absent:
  "isModelEnabled U p m (getEnabledModelSet U None)"
  "isModelEnabled U p m (getEnabledModelSet U (Some []))"
  by (simp_all add: isModelEnabled_def getEnabledModelSet_def)

lemma isModelEnabled_example:
  "isModelEnabled U (js ''anthropic'') (js ''claude-x'')
     (getEnabledModelSet U (Some [js ''anthropic/*'']))"
  "\<not> isModelEnabled U (js ''openai'') (js ''claude-x'')
       (getEnabledModelSet U (Some [js ''anthropic/*'']))"
  by (simp_all add: isModelEnabled_def getEnabledModelSet_def toLowerCase_def ascii_lower_def
      globSource_def replaceQuestion_def replaceStar_def escapeRegex_def regexSpecial_def js_def
      regexTest_def lineTerminator_def)

lemma isModelEnabled_case:
  assumes key: "toLowerCase U (p @ js ''/'' @ m) = toLowerCase U (p' @ js ''/'' @ m')"
    and pats: "map (toLowerCase U) ps = map (toLowerCase U) ps'"
  shows "isModelEnabled U p m (getEnabledModelSet U (Some ps))
         = isModelEnabled U p' m' (getEnabledModelSet U (Some ps'))"
proof -
  have "length ps = length ps'"
    using pats by (rule map_eq_imp_length_eq)
  then have "getEnabledModelSet U (Some ps) = getEnabledModelSet U (Some ps')"
    using pats by (simp add: getEnabledModelSet_def)
  then show ?thesis
    using key by (simp add: isModelEnabled_def Let_def split: option.split)
qed

lemma isModelEnabled_glob:
  assumes "\<forall>x \<in> set (toLowerCase U (p @ js ''/'' @ m)). \<not> lineTerminator x"
  shows "isModelEnabled U p m (getEnabledModelSet U (Some ps)) =
     (ps = [] \<or> (\<exists>pat \<in> set ps.
                    globMatch (toLowerCase U pat) (toLowerCase U (p @ js ''/'' @ m))))"
proof (cases "ps = []")
  case True
  then show ?thesis by (simp add: isModelEnabled_def getEnabledModelSet_def)
next
  case False
  let ?key = "toLowerCase U (p @ js ''/'' @ m)"
  let ?E = "set (map (toLowerCase U) ps)"
  have rt: "\<And>q. regexTest (globSource q) ?key = globMatch q ?key"
    using assms by (rule regexTest_globMatch)
  have "isModelEnabled U p m (Some ?E) = (\<exists>q \<in> ?E. globMatch q ?key)"
  proof
    assume "isModelEnabled U p m (Some ?E)"
    then consider "?key \<in> ?E" | "\<exists>q \<in> ?E. regexTest (globSource q) ?key"
      by (auto simp: isModelEnabled_def Let_def split: if_splits)
    then show "\<exists>q \<in> ?E. globMatch q ?key"
    proof cases
      case 1 then show ?thesis using globMatch_refl by blast
    next
      case 2 then show ?thesis using rt by blast
    qed
  next
    assume "\<exists>q \<in> ?E. globMatch q ?key"
    then obtain q where q: "q \<in> ?E" "globMatch q ?key" by blast
    show "isModelEnabled U p m (Some ?E)"
    proof (cases "0x2A \<in> set q \<or> 0x3F \<in> set q")
      case True
      then show ?thesis using q rt unfolding isModelEnabled_def Let_def by auto
    next
      case False
      then have "?key = q" using q(2) globMatch_plain by blast
      then show ?thesis using q(1) unfolding isModelEnabled_def Let_def by auto
    qed
  qed
  then show ?thesis using False by (simp add: getEnabledModelSet_def)
qed

text \<open>
  C2. The pattern \<open>anthropic/*\<close> enables \<open>anthropic/claude-x\<close> and does not enable
  \<open>openai/claude-x\<close>; with an absent or empty allow-list every provider and model is
  enabled. Matching ignores case: the answer depends on the key and on the patterns only
  through their lower-case forms. An entry is matched exactly or as a glob: for a key
  without line terminators the answer is that some pattern matches the key, where \<open>*\<close>
  stands for any run of characters and \<open>?\<close> for any one character.
\<close>

theorem isModelEnabled_allow_list:
  "isModelEnabled U (js ''anthropic'') (js ''claude-x'')
     (getEnabledModelSet U (Some [js ''anthropic/*'']))
   \<and> \<not> isModelEnabled U (js ''openai'') (js ''claude-x'')
         (getEnabledModelSet U (Some [js ''anthropic/*'']))
   \<and> isModelEnabled U p m (getEnabledModelSet U None)
   \<and> isModelEnabled U p m (getEnabledModelSet U (Some []))
   \<and> (toLowerCase U (p @ js ''/'' @ m) = toLowerCase U (p' @ js ''/'' @ m')
        \<and> map (toLowerCase U) ps = map (toLowerCase U) ps' \<longrightarrow>
      isModelEnabled U p m (getEnabledModelSet U (Some ps))
      = isModelEnabled U p' m' (getEnabledModelSet U (Some ps')))
   \<and> ((\<forall>x \<in> set (toLowerCase U (p @ js ''/'' @ m)). \<not> lineTerminator x) \<longrightarrow>
      isModelEnabled U p m (getEnabledModelSet U (Some ps))
      = (ps = [] \<or> (\<exists>pat \<in> set ps.
                       globMatch (toLowerCase U pat) (toLowerCase U (p @ js ''/'' @ m)))))"
  using isModelEnabled_example [of U] isModelEnabled_absent [of U p m]
    isModelEnabled_case [of U p m p' m' ps ps'] isModelEnabled_glob [of U p m ps]
  by (intro conjI impI; (elim conjE)?) assumption+

theorem isModelEnabled_allow_list_witness:
  "isModelEnabled (\<lambda>t. t) (js ''Anthropic'') (js ''Claude-X'')
     (getEnabledModelSet (\<lambda>t. t) (Some [js ''ANTHROPIC/*'']))
   \<and> isModelEnabled (\<lambda>t. t) (js ''anthropic'') (js ''claude-x'')
       (getEnabledModelSet (\<lambda>t. t) (Some [js ''openai/gpt-4'', js ''anthropic/claude-?'']))
   \<and> \<not> isModelEnabled (\<lambda>t. t) (js ''anthropic'') (js ''claude-xy'')
         (getEnabledModelSet (\<lambda>t. t) (Some [js ''openai/gpt-4'', js ''anthropic/claude-?'']))"
  using isModelEnabled_allow_list [where U = "\<lambda>t. t" and p = "js ''Anthropic''"
      and m = "js ''Claude-X''" and p' = "js ''anthropic''" and m' = "js ''claude-x''"
      and ps = "[js ''ANTHROPIC/*'']" and ps' = "[js ''anthropic/*'']"]
    isModelEnabled_allow_list [where U = "\<lambda>t. t" and p = "js ''anthropic''"
      and m = "js ''claude-x''" and p' = "js ''anthropic''" and m' = "js ''claude-x''"
      and ps = "[js ''openai/gpt-4'', js ''anthropic/claude-?'']"
      and ps' = "[js ''openai/gpt-4'', js ''anthropic/claude-?'']"]
    isModelEnabled_allow_list [where U = "\<lambda>t. t" and p = "js ''anthropic''"
      and m = "js ''claude-xy''" and p' = "js ''anthropic''" and m' = "js ''claude-xy''"
      and ps = "[js ''openai/gpt-4'', js ''anthropic/claude-?'']"
      and ps' = "[js ''openai/gpt-4'', js ''anthropic/claude-?'']"]
  by (simp add: toLowerCase_def ascii_lower_def js_def lineTerminator_def)

section \<open>The leader-key palette\<close>

lemma parsedLetter_letter:
  "0x61 \<le> k \<Longrightarrow> k \<le> 0x7A \<Longrightarrow> parsedLetter (Some [k]) = Some [k]"
  by (auto simp: parsedLetter_def js_def)

text \<open>A direct press of the key \<open>k\<close> reaches the block that selects by key, with \<open>k\<close>.\<close>

lemma chordPress_selectKey:
  assumes "chordPress mk pk data k"
  shows "overlay_handleInput mk pk U entries st data = selectKey entries st [k]"
proof -
  have nc: "\<not> mk data Escape" "\<not> mk data CtrlC" "\<not> mk data Backspace" "\<not> mk data Up"
    "\<not> mk data Down" "\<not> mk data Enter" "\<not> mk data Return"
    using assms by (simp_all add: chordPress_def)
  consider (parsed) "pk data = Some [k]" "0x61 \<le> k" "k \<le> 0x7A"
    | (raw) "parsedLetter (pk data) = None" "isPrintable data" "map ascii_lower data = [k]"
    using assms by (auto simp: chordPress_def)
  then show ?thesis
  proof cases
    case parsed
    then show ?thesis using nc
      by (simp add: overlay_handleInput_def parsedLetter_letter toLowerCase_letter)
  next
    case raw
    then show ?thesis using nc
      by (simp add: overlay_handleInput_def toLowerCase_printable)
  qed
qed

lemma root_group_key:
  "lk_view st = Root \<Longrightarrow> chordPress mk pk data k
   \<Longrightarrow> find (\<lambda>e. entryKey e = [k]) entries = Some (GroupEntry g)
   \<Longrightarrow> overlay_handleInput mk pk U entries st data =
         (st\<lparr>lk_view := InGroup g, lk_highlightedIndex := 0\<rparr>, NoOutcome)"
  by (simp add: chordPress_selectKey selectKey_def handleRootSelection_def)

lemma root_action_key:
  "lk_view st = Root \<Longrightarrow> chordPress mk pk data k
   \<Longrightarrow> find (\<lambda>e. entryKey e = [k]) entries = Some (ActionEntry key label description action)
   \<Longrightarrow> overlay_handleInput mk pk U entries st data =
         (st, Done (Some \<lparr>ai_key = key, ai_label = label, ai_description = description,
                           ai_action = action\<rparr>))"
  by (simp add: chordPress_selectKey selectKey_def handleRootSelection_def)

lemma group_action_key:
  "lk_view st = InGroup g \<Longrightarrow> chordPress mk pk data k
   \<Longrightarrow> find (\<lambda>a. ai_key a = [k]) (ag_items g) = Some item
   \<Longrightarrow> overlay_handleInput mk pk U entries st data = (st, Done (Some item))"
  by (simp add: chordPress_selectKey selectKey_def)

lemma group_backspace:
  "lk_view st = InGroup g \<Longrightarrow> mk data Backspace
   \<Longrightarrow> overlay_handleInput mk pk U entries st data =
         (st\<lparr>lk_view := Root, lk_highlightedIndex := 0\<rparr>, NoOutcome)"
  by (simp add: overlay_handleInput_def goBack_def)

lemma root_escape:
  "lk_view st = Root \<Longrightarrow> mk data Escape \<or> mk data CtrlC
   \<Longrightarrow> overlay_handleInput mk pk U entries st data = (st, Done None)"
  by (auto simp: overlay_handleInput_def goBack_def)

text \<open>
  With distinct keys in a scope, the entry that is found by a key is the entry with that
  key.
\<close>

lemma find_distinct_key:
  "distinct (map key xs) \<Longrightarrow> x \<in> set xs \<Longrightarrow> find (\<lambda>y. key y = key x) xs = Some x"
  by (induction xs) auto

text \<open>
  C7. In the root view, a press of the chord key of a group opens that group, with the
  highlighted index 0 and no outcome; a press of the key of a direct action ends the
  palette with that action. In a group, a press of the key of one of its actions ends the
  palette with that action, and backspace leads back to the root view with the
  highlighted index 0. In the root view, escape ends the palette with \<open>null\<close>. The group
  or action of a key is the first entry of the scope with that key.
\<close>

theorem overlay_transitions:
  "(lk_view st = Root \<and> chordPress mk pk data k
      \<and> find (\<lambda>e. entryKey e = [k]) entries = Some (GroupEntry g) \<longrightarrow>
    overlay_handleInput mk pk U entries st data =
      (st\<lparr>lk_view := InGroup g, lk_highlightedIndex := 0\<rparr>, NoOutcome))
   \<and> (lk_view st = Root \<and> chordPress mk pk data k
      \<and> find (\<lambda>e. entryKey e = [k]) entries = Some (ActionEntry key label description action) \<longrightarrow>
    overlay_handleInput mk pk U entries st data =
      (st, Done (Some \<lparr>ai_key = key, ai_label = label, ai_description = description,
                        ai_action = action\<rparr>)))
   \<and> (lk_view st = InGroup g \<and> chordPress mk pk data k
      \<and> find (\<lambda>a. ai_key a = [k]) (ag_items g) = Some item \<longrightarrow>
    overlay_handleInput mk pk U entries st data = (st, Done (Some item)))
   \<and> (lk_view st = InGroup g \<and> mk data Backspace \<longrightarrow>
    overlay_handleInput mk pk U entries st data =
      (st\<lparr>lk_view := Root, lk_highlightedIndex := 0\<rparr>, NoOutcome))
   \<and> (lk_view st = Root \<and> (mk data Escape \<or> mk data CtrlC) \<longrightarrow>
    overlay_handleInput mk pk U entries st data = (st, Done None))"
  by (intro conjI impI; elim conjE)
    (erule (2) root_group_key, erule (2) root_action_key, erule (2) group_action_key,
     erule (1) group_backspace, erule (1) root_escape)

theorem overlay_transitions_witness:
  "overlay_handleInput legacyMatches legacyParse (\<lambda>t. t) sampleEntries overlay_init (js ''s'')
     = (\<lparr>lk_view = InGroup sampleGroup, lk_highlightedIndex = 0\<rparr>, NoOutcome)
   \<and> overlay_handleInput legacyMatches legacyParse (\<lambda>t. t) sampleEntries overlay_init (js ''m'')
     = (overlay_init, Done (Some \<lparr>ai_key = js ''m'', ai_label = js ''Model'',
                                   ai_description = None, ai_action = ()\<rparr>))
   \<and> overlay_handleInput legacyMatches legacyParse (\<lambda>t. t) sampleEntries
        \<lparr>lk_view = InGroup sampleGroup, lk_highlightedIndex = 0\<rparr> (js ''n'')
     = (\<lparr>lk_view = InGroup sampleGroup, lk_highlightedIndex = 0\<rparr>,
        Done (Some (hd (ag_items sampleGroup))))
   \<and> overlay_handleInput legacyMatches legacyParse (\<lambda>t. t) sampleEntries
        \<lparr>lk_view = InGroup sampleGroup, lk_highlightedIndex = 3\<rparr> (legacyKey Backspace)
     = (\<lparr>lk_view = Root, lk_highlightedIndex = 0\<rparr>, NoOutcome)
   \<and> overlay_handleInput legacyMatches legacyParse (\<lambda>t. t) sampleEntries overlay_init
        (legacyKey Escape)
     = (overlay_init, Done None)"
  using overlay_transitions [where st = overlay_init and mk = legacyMatches and pk = legacyParse
        and data = "js ''s''" and k = "0x73" and entries = sampleEntries
        and g = sampleGroup and U = "\<lambda>t. t"]
    overlay_transitions [where st = overlay_init and mk = legacyMatches and pk = legacyParse
        and data = "js ''m''" and k = "0x6D" and entries = sampleEntries and U = "\<lambda>t. t"
        and key = "js ''m''" and label = "js ''Model''" and description = None
        and action = "()"]
    overlay_transitions [where st = "\<lparr>lk_view = InGroup sampleGroup, lk_highlightedIndex = 0\<rparr>"
        and mk = legacyMatches and pk = legacyParse and data = "js ''n''" and k = "0x6E"
        and entries = sampleEntries and g = sampleGroup and U = "\<lambda>t. t"
        and item = "hd (ag_items sampleGroup)"]
    overlay_transitions [where st = "\<lparr>lk_view = InGroup sampleGroup, lk_highlightedIndex = 3\<rparr>"
        and mk = legacyMatches and pk = legacyParse and data = "legacyKey Backspace"
        and entries = sampleEntries and g = sampleGroup and U = "\<lambda>t. t"]
    overlay_transitions [where st = overlay_init and mk = legacyMatches and pk = legacyParse
        and data = "legacyKey Escape" and entries = sampleEntries and U = "\<lambda>t. t"]
  by (simp add: sample_defs sampleGroup_def sampleEntries_def chordPress_def parsedLetter_def
      overlay_init_def)

section \<open>The favourites quick picker\<close>

text \<open>
  The pressed key, from what the library parses and from the raw input: the parsed key in
  lower case when it is one character; otherwise the input in lower case when it is one
  printable character; otherwise none.
\<close>

lemma pressedKey_parsed:
  "pk data = Some p \<Longrightarrow> length p = 1 \<Longrightarrow> toLowerCase U p \<noteq> []
   \<Longrightarrow> pressedKey pk U data = Some (toLowerCase U p)"
  by (auto simp: pressedKey_def truthy_def Let_def)

lemma pressedKey_raw:
  assumes "\<forall>p. pk data = Some p \<longrightarrow> length p \<noteq> 1 \<or> toLowerCase U p = []"
    and "isPrintable data"
  shows "pressedKey pk U data = Some (toLowerCase U data)" and "toLowerCase U data \<noteq> []"
proof -
  obtain c where c: "data = [c]"
    using assms(2) by (auto simp: isPrintable_iff)
  show "toLowerCase U data \<noteq> []"
    using assms(2) c by (simp add: toLowerCase_printable)
  show "pressedKey pk U data = Some (toLowerCase U data)"
    using assms by (cases "pk data") (auto simp: pressedKey_def truthy_def Let_def)
qed

lemma pressedKey_none:
  assumes "\<forall>p. pk data = Some p \<longrightarrow> length p \<noteq> 1 \<or> toLowerCase U p = []"
    and "\<not> isPrintable data"
  shows "pressedKey pk U data = None"
  using assms by (cases "pk data") (auto simp: pressedKey_def truthy_def Let_def)

text \<open>An input that is no control key is looked up among the favourites by its pressed key.\<close>

lemma fav_pressed:
  assumes "noControlKey mk data" and "pressedKey pk U data = Some key" and "key \<noteq> []"
  shows "fav_handleInput mk pk U favourites hi data =
     (case find (\<lambda>f. toLowerCase U (fav_key f) = key) favourites of
        None \<Rightarrow> (hi, NoOutcome, False)
      | Some match \<Rightarrow> (hi, Done (Some match), False))"
  using assms by (simp add: fav_handleInput_def noControlKey_def)

lemma fav_not_pressed:
  assumes "noControlKey mk data" and "pressedKey pk U data = None"
  shows "fav_handleInput mk pk U favourites hi data = (hi, NoOutcome, False)"
  using assms by (simp add: fav_handleInput_def noControlKey_def)

lemma fav_parsed_match:
  assumes "noControlKey mk data" and "pk data = Some p" and "length p = 1"
    and "toLowerCase U p \<noteq> []"
    and "find (\<lambda>g. toLowerCase U (fav_key g) = toLowerCase U p) favourites = Some f"
  shows "fav_handleInput mk pk U favourites hi data = (hi, Done (Some f), False)"
proof -
  have "pressedKey pk U data = Some (toLowerCase U p)"
    using pressedKey_parsed [of pk data p U] assms(2,3,4) by blast
  then show ?thesis
    using fav_pressed [of mk data pk U "toLowerCase U p" favourites hi] assms(1,4,5) by simp
qed

lemma fav_parsed_no_match:
  assumes "noControlKey mk data" and "pk data = Some p" and "length p = 1"
    and "toLowerCase U p \<noteq> []"
    and "\<forall>g \<in> set favourites. toLowerCase U (fav_key g) \<noteq> toLowerCase U p"
  shows "fav_handleInput mk pk U favourites hi data = (hi, NoOutcome, False)"
proof -
  have "pressedKey pk U data = Some (toLowerCase U p)"
    using pressedKey_parsed [of pk data p U] assms(2,3,4) by blast
  moreover have "find (\<lambda>g. toLowerCase U (fav_key g) = toLowerCase U p) favourites = None"
    using assms(5) by (simp add: find_None_iff)
  ultimately show ?thesis
    using fav_pressed [of mk data pk U "toLowerCase U p" favourites hi] assms(1,4) by simp
qed

lemma fav_raw_match:
  assumes "noControlKey mk data"
    and "\<forall>q. pk data = Some q \<longrightarrow> length q \<noteq> 1 \<or> toLowerCase U q = []"
    and "isPrintable data"
    and "find (\<lambda>g. toLowerCase U (fav_key g) = toLowerCase U data) favourites = Some f"
  shows "fav_handleInput mk pk U favourites hi data = (hi, Done (Some f), False)"
proof -
  have "pressedKey pk U data = Some (toLowerCase U data)" and "toLowerCase U data \<noteq> []"
    using pressedKey_raw [of pk data U] assms(2,3) by blast+
  then show ?thesis
    using fav_pressed [of mk data pk U "toLowerCase U data" favourites hi] assms(1,4) by simp
qed

lemma fav_raw_no_match:
  assumes "noControlKey mk data"
    and "\<forall>q. pk data = Some q \<longrightarrow> length q \<noteq> 1 \<or> toLowerCase U q = []"
    and "isPrintable data"
    and "\<forall>g \<in> set favourites. toLowerCase U (fav_key g) \<noteq> toLowerCase U data"
  shows "fav_handleInput mk pk U favourites hi data = (hi, NoOutcome, False)"
proof -
  have "pressedKey pk U data = Some (toLowerCase U data)" and "toLowerCase U data \<noteq> []"
    using pressedKey_raw [of pk data U] assms(2,3) by blast+
  moreover have "find (\<lambda>g. toLowerCase U (fav_key g) = toLowerCase U data) favourites = None"
    using assms(4) by (simp add: find_None_iff)
  ultimately show ?thesis
    using fav_pressed [of mk data pk U "toLowerCase U data" favourites hi] assms(1) by simp
qed

lemma fav_no_key:
  assumes "noControlKey mk data"
    and "\<forall>q. pk data = Some q \<longrightarrow> length q \<noteq> 1 \<or> toLowerCase U q = []"
    and "\<not> isPrintable data"
  shows "fav_handleInput mk pk U favourites hi data = (hi, NoOutcome, False)"
proof -
  have "pressedKey pk U data = None"
    using pressedKey_none [of pk data U] assms(2,3) by blast
  then show ?thesis
    using fav_not_pressed [of mk data pk U favourites hi] assms(1) by simp
qed

lemma fav_exact_key:
  assumes "noControlKey mk (fav_key f)" and "isPrintable (fav_key f)"
    and "pk (fav_key f) = None \<or> pk (fav_key f) = Some (fav_key f)"
    and "find (\<lambda>g. toLowerCase U (fav_key g) = toLowerCase U (fav_key f)) favourites = Some f"
  shows "fav_handleInput mk pk U favourites hi (fav_key f) = (hi, Done (Some f), False)"
proof (cases "pk (fav_key f)")
  case None
  then have "\<forall>q. pk (fav_key f) = Some q \<longrightarrow> length q \<noteq> 1 \<or> toLowerCase U q = []"
    by simp
  then show ?thesis
    using fav_raw_match [of mk "fav_key f" pk U favourites f hi] assms(1,2,4) by blast
next
  case (Some q)
  then have p: "pk (fav_key f) = Some (fav_key f)"
    using assms(3) by simp
  have len: "length (fav_key f) = 1"
    using assms(2) by (auto simp: isPrintable_iff)
  have "toLowerCase U (fav_key f) \<noteq> []"
    using assms(2) len by (auto simp: toLowerCase_printable)
  then show ?thesis
    using fav_parsed_match [of mk "fav_key f" pk "fav_key f" U favourites f hi] assms(1,4) p len
    by blast
qed

lemma fav_backspace:
  "mk data Backspace \<Longrightarrow> fav_handleInput mk pk U favourites hi data = (hi, Done None, False)"
  by (simp add: fav_handleInput_def)

text \<open>
  C8. In the favourites picker, take an input that is none of the control keys. Its
  pressed key is the key the library parses it to, when that is one character, and
  otherwise the input itself, when that is one printable character; keys are compared in
  lower case. When the pressed key is the key of no favourite, or there is no pressed
  key, nothing changes and there is no outcome. When it is the key of a favourite, the
  picker ends with that favourite at once, without enter (the first favourite with that
  key); so it does for the input that is the configured printable key itself. Backspace
  ends the picker with \<open>null\<close>.
\<close>

theorem fav_handleInput_keys:
  "(noControlKey mk data \<and> pk data = Some p \<and> length p = 1 \<and> toLowerCase U p \<noteq> []
      \<and> (\<forall>g \<in> set favourites. toLowerCase U (fav_key g) \<noteq> toLowerCase U p) \<longrightarrow>
    fav_handleInput mk pk U favourites hi data = (hi, NoOutcome, False))
   \<and> (noControlKey mk data
      \<and> (\<forall>q. pk data = Some q \<longrightarrow> length q \<noteq> 1 \<or> toLowerCase U q = [])
      \<and> isPrintable data
      \<and> (\<forall>g \<in> set favourites. toLowerCase U (fav_key g) \<noteq> toLowerCase U data) \<longrightarrow>
    fav_handleInput mk pk U favourites hi data = (hi, NoOutcome, False))
   \<and> (noControlKey mk data
      \<and> (\<forall>q. pk data = Some q \<longrightarrow> length q \<noteq> 1 \<or> toLowerCase U q = [])
      \<and> \<not> isPrintable data \<longrightarrow>
    fav_handleInput mk pk U favourites hi data = (hi, NoOutcome, False))
   \<and> (noControlKey mk data \<and> pk data = Some p \<and> length p = 1 \<and> toLowerCase U p \<noteq> []
      \<and> find (\<lambda>g. toLowerCase U (fav_key g) = toLowerCase U p) favourites = Some f \<longrightarrow>
    fav_handleInput mk pk U favourites hi data = (hi, Done (Some f), False))
   \<and> (noControlKey mk data
      \<and> (\<forall>q. pk data = Some q \<longrightarrow> length q \<noteq> 1 \<or> toLowerCase U q = [])
      \<and> isPrintable data
      \<and> find (\<lambda>g. toLowerCase U (fav_key g) = toLowerCase U data) favourites = Some f \<longrightarrow>
    fav_handleInput mk pk U favourites hi data = (hi, Done (Some f), False))
   \<and> (noControlKey mk (fav_key f) \<and> isPrintable (fav_key f)
      \<and> (pk (fav_key f) = None \<or> pk (fav_key f) = Some (fav_key f))
      \<and> find (\<lambda>g. toLowerCase U (fav_key g) = toLowerCase U (fav_key f)) favourites = Some f \<longrightarrow>
    fav_handleInput mk pk U favourites hi (fav_key f) = (hi, Done (Some f), False))
   \<and> (mk data Backspace \<longrightarrow>
    fav_handleInput mk pk U favourites hi data = (hi, Done None, False))"
  by (intro conjI impI; (elim conjE)?)
    (erule (4) fav_parsed_no_match, erule (3) fav_raw_no_match, erule (2) fav_no_key,
     erule (4) fav_parsed_match, erule (3) fav_raw_match, erule (3) fav_exact_key,
     erule fav_backspace)

lemmas fav_sample_defs = sample_defs sampleFavourites_def kittyParse_def toLowerCase_def
  ascii_lower_def

theorem fav_handleInput_keys_witness:
  "fav_handleInput legacyMatches kittyParse (\<lambda>t. t) sampleFavourites 0
       [0x1B, 0x5B, 0x31, 0x30, 0x33, 0x75]
     = (0, Done (Some (sampleFavourites ! 1)), False)
   \<and> fav_handleInput legacyMatches kittyParse (\<lambda>t. t) sampleFavourites 0
       [0x1B, 0x5B, 0x31, 0x32, 0x30, 0x75]
     = (0, NoOutcome, False)
   \<and> fav_handleInput legacyMatches kittyParse (\<lambda>t. t) sampleFavourites 0 (js ''G'')
     = (0, Done (Some (sampleFavourites ! 1)), False)
   \<and> fav_handleInput legacyMatches kittyParse (\<lambda>t. t) sampleFavourites 0 (js ''X'')
     = (0, NoOutcome, False)
   \<and> fav_handleInput legacyMatches kittyParse (\<lambda>t. t) sampleFavourites 0 [0x1B, 0x5B, 0x5A]
     = (0, NoOutcome, False)
   \<and> fav_handleInput legacyMatches legacyParse (\<lambda>t. t) sampleFavourites 0 (js ''g'')
     = (0, Done (Some (sampleFavourites ! 1)), False)
   \<and> fav_handleInput legacyMatches legacyParse (\<lambda>t. t) sampleFavourites 0 (legacyKey Backspace)
     = (0, Done None, False)"
  using fav_handleInput_keys [where mk = legacyMatches and pk = kittyParse and U = "\<lambda>t. t"
      and favourites = sampleFavourites and hi = 0
      and data = "[0x1B, 0x5B, 0x31, 0x30, 0x33, 0x75]" and p = "js ''g''"
      and f = "sampleFavourites ! 1"]
    fav_handleInput_keys [where mk = legacyMatches and pk = kittyParse and U = "\<lambda>t. t"
      and favourites = sampleFavourites and hi = 0
      and data = "[0x1B, 0x5B, 0x31, 0x32, 0x30, 0x75]" and p = "js ''x''"
      and f = "sampleFavourites ! 1"]
    fav_handleInput_keys [where mk = legacyMatches and pk = kittyParse and U = "\<lambda>t. t"
      and favourites = sampleFavourites and hi = 0 and data = "js ''G''" and p = "js ''g''"
      and f = "sampleFavourites ! 1"]
    fav_handleInput_keys [where mk = legacyMatches and pk = kittyParse and U = "\<lambda>t. t"
      and favourites = sampleFavourites and hi = 0 and data = "js ''X''" and p = "js ''x''"
      and f = "sampleFavourites ! 1"]
    fav_handleInput_keys [where mk = legacyMatches and pk = kittyParse and U = "\<lambda>t. t"
      and favourites = sampleFavourites and hi = 0 and data = "[0x1B, 0x5B, 0x5A]"
      and p = "js ''x''" and f = "sampleFavourites ! 1"]
    fav_handleInput_keys [where mk = legacyMatches and pk = legacyParse and U = "\<lambda>t. t"
      and favourites = sampleFavourites and hi = 0 and data = "legacyKey Backspace"
      and p = "js ''x''" and f = "sampleFavourites ! 1"]
  by (simp add: fav_sample_defs)

section \<open>Loading the favourites\<close>

lemma validEntry_null: "validEntry JNull = Inl JsTypeError"
  by (simp add: validEntry_def getProp_def)

lemma validEntry_not_null: "e \<noteq> JNull \<Longrightarrow> \<exists>b. validEntry e = Inr b"
  by (simp add: validEntry_def getProp_def)

lemma filterEntries_no_null:
  "JNull \<notin> set es \<Longrightarrow> filterEntries es = Inr (filter (\<lambda>e. validEntry e = Inr True) es)"
proof (induction es)
  case Nil
  then show ?case by simp
next
  case (Cons e es)
  then obtain b where "validEntry e = Inr b"
    using validEntry_not_null [of e] by auto
  then show ?case using Cons by simp
qed

lemma filterEntries_null: "JNull \<in> set es \<Longrightarrow> filterEntries es = Inl JsTypeError"
proof (induction es)
  case Nil
  then show ?case by simp
next
  case (Cons e es)
  show ?case
  proof (cases "e = JNull")
    case True
    then show ?thesis by (simp add: validEntry_null)
  next
    case False
    then obtain b where "validEntry e = Inr b"
      using validEntry_not_null [of e] by auto
    moreover have "filterEntries es = Inl JsTypeError"
      using Cons False by simp
    ultimately show ?thesis by simp
  qed
qed

text \<open>What holds of the load: an empty list for a file that cannot be read, is not JSON
  or is not an array, at most 8 entries, and, for an array without \<open>null\<close>, the valid
  entries in their order.\<close>

lemma loadFavourites_unreadable: "loadFavourites parse None = []"
  by (simp add: loadFavourites_def)

lemma loadFavourites_invalid_json: "parse raw = None \<Longrightarrow> loadFavourites parse (Some raw) = []"
  by (simp add: loadFavourites_def)

lemma loadFavourites_not_array:
  "parse raw = Some v \<Longrightarrow> \<forall>es. v \<noteq> JArray es \<Longrightarrow> loadFavourites parse (Some raw) = []"
  by (cases v) (simp_all add: loadFavourites_def)

lemma loadFavourites_length: "length (loadFavourites parse file) \<le> 8"
  by (simp add: loadFavourites_def MAX_FAVOURITES_def
      split: option.splits json.splits sum.splits)

lemma loadFavourites_array:
  "parse raw = Some (JArray es) \<Longrightarrow> JNull \<notin> set es
   \<Longrightarrow> loadFavourites parse (Some raw) = take 8 (filter (\<lambda>e. validEntry e = Inr True) es)"
  by (simp add: loadFavourites_def filterEntries_no_null MAX_FAVOURITES_def)

lemma loadFavourites_null_in_array:
  "parse raw = Some (JArray es) \<Longrightarrow> JNull \<in> set es \<Longrightarrow> loadFavourites parse (Some raw) = []"
  by (simp add: loadFavourites_def filterEntries_null)

text \<open>
  C9. Loading the favourites drops every malformed entry instead of failing the whole
  load, keeps at most 8 entries and returns an empty list, without throwing, for a file
  that cannot be read, is not JSON or is not an array. The lemmas above show this for
  every array without \<open>null\<close>. An entry that is \<open>null\<close> is not dropped: the filter throws
  on it and the load returns the empty list, although the array has a valid entry. A
  number in the same place is dropped and the valid entry is kept.
\<close>

theorem loadFavourites_null_entry:
  "validEntry sampleFavouriteJson = Inr True
   \<and> loadFavourites (\<lambda>raw. Some (JArray [JNumber 5, sampleFavouriteJson])) (Some [])
       = [sampleFavouriteJson]
   \<and> loadFavourites (\<lambda>raw. Some (JArray [JNull, sampleFavouriteJson])) (Some []) = []"
  by (simp add: loadFavourites_def validEntry_def getProp_def sampleFavouriteJson_def js_def
      MAX_FAVOURITES_def)

section \<open>The model switcher\<close>

lemma applySelection_no_show: "filter isShow (applySelection h sp sm m t) = []"
  by (simp add: applySelection_def)

text \<open>
  Each part of the flow: when the select list number \<open>k\<close> (counted from this part on)
  was shown and its answer is \<open>null\<close>, the part returns, and all it did is show \<open>k + 1\<close>
  lists.
\<close>

lemma thinkingStep_cancel:
  assumes "k < length answers" "answers ! k = None"
    and "k < length (filter isShow (fst (thinkingStep h sp sm answers)))"
  shows "snd (thinkingStep h sp sm answers) = Returned
     \<and> list_all isShow (fst (thinkingStep h sp sm answers))
     \<and> length (fst (thinkingStep h sp sm answers)) = Suc k"
  using assms
  by (cases k)
    (auto simp: thinkingStep_def Let_def applySelection_no_show
      split: option.splits list.splits if_splits)

lemma modelStep_cancel:
  assumes "k < length answers" "answers ! k = None"
    and "k < length (filter isShow (fst (modelStep h sp answers)))"
  shows "snd (modelStep h sp answers) = Returned
     \<and> list_all isShow (fst (modelStep h sp answers))
     \<and> length (fst (modelStep h sp answers)) = Suc k"
proof (cases "getModelsForProvider h sp = []")
  case True
  then show ?thesis using assms by (simp add: modelStep_def)
next
  case False
  show ?thesis
  proof (cases answers)
    case Nil
    then show ?thesis using assms by simp
  next
    case (Cons a rest)
    show ?thesis
    proof (cases a)
      case None
      then show ?thesis using assms Cons False
        by (cases k) (simp_all add: modelStep_def Let_def)
    next
      case (Some v)
      show ?thesis
      proof (cases "v = []")
        case True
        then show ?thesis using assms Cons False Some
          by (cases k) (simp_all add: modelStep_def Let_def)
      next
        case nonempty: False
        obtain log st where ts: "thinkingStep h sp v rest = (log, st)"
          by (cases "thinkingStep h sp v rest")
        have ms: "modelStep h sp answers =
            (ShowSelect (js ''Select Model ('' @ sp @ js '')'')
               (map (modelItem (map_option m_provider (currentModel h))
                       (map_option m_id (currentModel h))) (getModelsForProvider h sp)) None
             # log, st)"
          using Cons False Some nonempty ts by (simp add: modelStep_def Let_def)
        obtain k' where k: "k = Suc k'"
          using assms(2) Cons Some by (cases k) simp_all
        have "k' < length rest" "rest ! k' = None"
          using assms(1,2) Cons k by simp_all
        moreover have "k' < length (filter isShow (fst (thinkingStep h sp v rest)))"
          using assms(3) ms ts k by simp
        ultimately have "snd (thinkingStep h sp v rest) = Returned
            \<and> list_all isShow (fst (thinkingStep h sp v rest))
            \<and> length (fst (thinkingStep h sp v rest)) = Suc k'"
          by (rule thinkingStep_cancel)
        then show ?thesis using ms ts k by simp
      qed
    qed
  qed
qed

lemma runModelSwitcher_cancel:
  assumes "k < length answers" "answers ! k = None"
    and "k < length (filter isShow (fst (runModelSwitcher h answers)))"
  shows "snd (runModelSwitcher h answers) = Returned
     \<and> list_all isShow (fst (runModelSwitcher h answers))
     \<and> length (fst (runModelSwitcher h answers)) = Suc k"
proof (cases "hasUI h \<and> getProviders h \<noteq> []")
  case False
  then show ?thesis using assms by (auto simp: runModelSwitcher_def)
next
  case ui: True
  show ?thesis
  proof (cases answers)
    case Nil
    then show ?thesis using assms by simp
  next
    case (Cons a rest)
    show ?thesis
    proof (cases a)
      case None
      then show ?thesis using assms Cons ui
        by (cases k) (simp_all add: runModelSwitcher_def Let_def)
    next
      case (Some v)
      show ?thesis
      proof (cases "v = []")
        case True
        then show ?thesis using assms Cons ui Some
          by (cases k) (simp_all add: runModelSwitcher_def Let_def)
      next
        case nonempty: False
        obtain log st where ts: "modelStep h v rest = (log, st)"
          by (cases "modelStep h v rest")
        have ms: "runModelSwitcher h answers =
            (ShowSelect (js ''Select Provider'')
               (map (providerItem (map_option m_provider (currentModel h))) (getProviders h)) None
             # log, st)"
          using Cons ui Some nonempty ts by (simp add: runModelSwitcher_def Let_def)
        obtain k' where k: "k = Suc k'"
          using assms(2) Cons Some by (cases k) simp_all
        have "k' < length rest" "rest ! k' = None"
          using assms(1,2) Cons k by simp_all
        moreover have "k' < length (filter isShow (fst (modelStep h v rest)))"
          using assms(3) ms ts k by simp
        ultimately have "snd (modelStep h v rest) = Returned
            \<and> list_all isShow (fst (modelStep h v rest))
            \<and> length (fst (modelStep h v rest)) = Suc k'"
          by (rule modelStep_cancel)
        then show ?thesis using ms ts k by simp
      qed
    qed
  qed
qed

lemma all_shows:
  assumes "list_all isShow log"
  shows "length (filter isShow log) = length log"
    and "\<forall>m. SetModel m \<notin> set log"
    and "\<forall>l. SetThinkingLevel l \<notin> set log"
    and "\<forall>msg sev. Notify msg sev \<notin> set log"
  using assms by (induction log) auto

text \<open>
  C1. When a step of the model switcher (the select list number \<open>k\<close>, counted from 0:
  provider, model, thinking level) was shown and its answer is \<open>null\<close>, the flow returns
  at once: no later list is shown (exactly \<open>k + 1\<close> lists were shown), \<open>setModel\<close> and
  \<open>setThinkingLevel\<close> are not called, and nothing is notified.
\<close>

theorem runModelSwitcher_cancel_silent:
  assumes "k < length answers" and "answers ! k = None"
    and "k < length (filter isShow (fst (runModelSwitcher h answers)))"
  shows "snd (runModelSwitcher h answers) = Returned
     \<and> length (filter isShow (fst (runModelSwitcher h answers))) = Suc k
     \<and> (\<forall>m. SetModel m \<notin> set (fst (runModelSwitcher h answers)))
     \<and> (\<forall>l. SetThinkingLevel l \<notin> set (fst (runModelSwitcher h answers)))
     \<and> (\<forall>msg sev. Notify msg sev \<notin> set (fst (runModelSwitcher h answers)))"
proof -
  have c: "snd (runModelSwitcher h answers) = Returned
     \<and> list_all isShow (fst (runModelSwitcher h answers))
     \<and> length (fst (runModelSwitcher h answers)) = Suc k"
    using assms by (rule runModelSwitcher_cancel)
  then show ?thesis
    using all_shows [of "fst (runModelSwitcher h answers)"] by simp
qed

text \<open>
  The flow from end to end: provider \<open>anthropic\<close>, model \<open>claude-x\<close>, thinking level
  \<open>high\<close>.
\<close>

lemma runModelSwitcher_example:
  "map isShow (fst (runModelSwitcher sampleHost
      [Some (js ''anthropic''), Some (js ''claude-x''), Some (js ''high'')]))
     = [True, True, True, False, False, False]
   \<and> drop 3 (fst (runModelSwitcher sampleHost
      [Some (js ''anthropic''), Some (js ''claude-x''), Some (js ''high'')]))
     = [SetModel (sampleModels ! 1), SetThinkingLevel (js ''high''),
        Notify (js ''Switched to Claude X (thinking: high)'') Info]"
  by (simp add: runModelSwitcher_def modelStep_def thinkingStep_def applySelection_def
      sampleHost_def sampleModels_def getProviders_def getModelsForProvider_def
      getAvailableEnabledModels_def getEnabledModelSet_def isModelEnabled_def countProvider_def
      codeUnitCompare_def js_def Let_def)

lemmas host_defs =
  runModelSwitcher_def modelStep_def thinkingStep_def applySelection_def sampleHost_def
  sampleModels_def getProviders_def getModelsForProvider_def getAvailableEnabledModels_def
  getEnabledModelSet_def isModelEnabled_def countProvider_def codeUnitCompare_def js_def
  Let_def providerItem_def modelItem_def thinkingItem_def featuresText_def

theorem runModelSwitcher_cancel_silent_witness:
  "runModelSwitcher sampleHost [None]
     = ([ShowSelect (js ''Select Provider'')
           [\<lparr>item_value = js ''anthropic'', item_label = js ''anthropic'',
              item_description = Some (js ''1 model'')\<rparr>,
            \<lparr>item_value = js ''openai'', item_label = js ''openai'',
              item_description = Some (js ''1 model'')\<rparr>] None], Returned)
   \<and> map isShow (fst (runModelSwitcher sampleHost [Some (js ''anthropic''), None])) = [True, True]
   \<and> snd (runModelSwitcher sampleHost [Some (js ''anthropic''), None]) = Returned
   \<and> map isShow (fst (runModelSwitcher sampleHost
                         [Some (js ''anthropic''), Some (js ''claude-x''), None]))
      = [True, True, True]
   \<and> snd (runModelSwitcher sampleHost [Some (js ''anthropic''), Some (js ''claude-x''), None])
      = Returned"
  using runModelSwitcher_cancel_silent [where k = 0 and h = sampleHost and answers = "[None]"]
    runModelSwitcher_cancel_silent [where k = 1 and h = sampleHost
        and answers = "[Some (js ''anthropic''), None]"]
    runModelSwitcher_cancel_silent [where k = 2 and h = sampleHost
        and answers = "[Some (js ''anthropic''), Some (js ''claude-x''), None]"]
  by (simp add: host_defs digits.simps)


end
